theory Spec2Isabelle
  imports Complex_Main
begin

section \<open>LOBPCG (scipy/sparse/linalg/eigen/lobpcg/lobpcg.py): the embedding\<close>

text \<open>
  The module is modelled over the real numbers: a float is a \<open>real\<close>, so every
  statement below is one of exact arithmetic. Python exceptions are values of the type
  \<open>error\<close>; a function that can raise returns \<open>error + 'a\<close>, with \<open>Inl\<close> the
  exception. The diagnostic output (\<open>verbosityLevel\<close>) is left out: the model is the
  function at \<open>verbosityLevel = 0\<close>.
\<close>

subsection \<open>Exceptions\<close>

datatype error =
    ValueError string
  | NotImplementedError string
  | LinAlgError string
  | IndexError string
  | TypeError string
  | AssertionError string

definition bindE :: "error + 'a \<Rightarrow> ('a \<Rightarrow> error + 'b) \<Rightarrow> error + 'b" where
  "bindE m f = (case m of Inl e \<Rightarrow> Inl e | Inr x \<Rightarrow> f x)"

subsection \<open>numpy arrays\<close>

text \<open>
  An array is its shape and its elements in row-major order. The arrays of the solver
  are rank-2 blocks; \<open>mk2 m n f\<close> is the \<open>m\<close> by \<open>n\<close> block with entry \<open>f i j\<close> and
  \<open>at2 a i j\<close> reads an entry of a rank-2 array. A rank-1 array (the eigenvalues, the
  residual norms, the active mask) is a list.
\<close>

datatype ndarray = NDArray (shape: "nat list") (elems: "real list")

definition ndim :: "ndarray \<Rightarrow> nat" where
  "ndim a = length (shape a)"

definition nrows :: "ndarray \<Rightarrow> nat" where
  "nrows a = shape a ! 0"

definition ncols :: "ndarray \<Rightarrow> nat" where
  "ncols a = shape a ! 1"

definition mk2 :: "nat \<Rightarrow> nat \<Rightarrow> (nat \<Rightarrow> nat \<Rightarrow> real) \<Rightarrow> ndarray" where
  "mk2 m n f = NDArray [m, n] (concat (map (\<lambda>i. map (f i) [0..<n]) [0..<m]))"

definition at2 :: "ndarray \<Rightarrow> nat \<Rightarrow> nat \<Rightarrow> real" where
  "at2 a i j = elems a ! (i * ncols a + j)"

text \<open>\<open>np.eye(n)\<close> and \<open>np.diag(v)\<close> of a rank-1 \<open>v\<close>.\<close>

definition np_eye :: "nat \<Rightarrow> ndarray" where
  "np_eye n = mk2 n n (\<lambda>i j. if i = j then 1 else 0)"

definition np_diag :: "real list \<Rightarrow> ndarray" where
  "np_diag v = mk2 (length v) (length v) (\<lambda>i j. if i = j then v ! i else 0)"

text \<open>\<open>a.T\<close>: the transpose of a rank-2 array; an array of rank 0 or 1 is its own
  transpose (arrays of higher rank do not occur in the solver).\<close>

definition np_T :: "ndarray \<Rightarrow> ndarray" where
  "np_T a = (if ndim a = 2 then mk2 (ncols a) (nrows a) (\<lambda>i j. at2 a j i) else a)"

text \<open>\<open>np.dot(a, b)\<close> of two rank-2 arrays; numpy raises ValueError when the inner
  dimensions differ.\<close>

definition np_dot :: "ndarray \<Rightarrow> ndarray \<Rightarrow> error + ndarray" where
  "np_dot a b =
     (if ndim a = 2 \<and> ndim b = 2 \<and> ncols a = nrows b
      then Inr (mk2 (nrows a) (ncols b)
                  (\<lambda>i j. sum_list (map (\<lambda>l. at2 a i l * at2 b l j) [0..<ncols a])))
      else Inl (ValueError ''shapes not aligned''))"

text \<open>Elementwise binary operators on rank-2 arrays, with numpy's broadcasting: along
  each axis the two lengths are equal or one of them is 1.\<close>

definition bdim :: "nat \<Rightarrow> nat \<Rightarrow> nat" where
  "bdim m1 m2 = (if m1 = 1 then m2 else m1)"

definition broadcast2 :: "(real \<Rightarrow> real \<Rightarrow> real) \<Rightarrow> ndarray \<Rightarrow> ndarray \<Rightarrow> error + ndarray" where
  "broadcast2 f a b =
     (if ndim a = 2 \<and> ndim b = 2
         \<and> (nrows a = nrows b \<or> nrows a = 1 \<or> nrows b = 1)
         \<and> (ncols a = ncols b \<or> ncols a = 1 \<or> ncols b = 1)
      then Inr (mk2 (bdim (nrows a) (nrows b)) (bdim (ncols a) (ncols b))
                  (\<lambda>i j. f (at2 a (if nrows a = 1 then 0 else i) (if ncols a = 1 then 0 else j))
                           (at2 b (if nrows b = 1 then 0 else i) (if ncols b = 1 then 0 else j))))
      else Inl (ValueError ''operands could not be broadcast together''))"

definition np_add :: "ndarray \<Rightarrow> ndarray \<Rightarrow> error + ndarray" where
  "np_add a b = broadcast2 (\<lambda>x y. x + y) a b"

definition np_sub :: "ndarray \<Rightarrow> ndarray \<Rightarrow> error + ndarray" where
  "np_sub a b = broadcast2 (\<lambda>x y. x - y) a b"

definition np_mul :: "ndarray \<Rightarrow> ndarray \<Rightarrow> error + ndarray" where
  "np_mul a b = broadcast2 (\<lambda>x y. x * y) a b"

text \<open>The in-place operators \<open>a += b\<close> and \<open>a -= b\<close>: the result is stored in \<open>a\<close>, so
  the broadcast shape has to be the shape of \<open>a\<close>.\<close>

definition np_iadd :: "ndarray \<Rightarrow> ndarray \<Rightarrow> error + ndarray" where
  "np_iadd a b =
     bindE (np_add a b) (\<lambda>c. if shape c = shape a then Inr c
                              else Inl (ValueError ''non-broadcastable output operand''))"

definition np_isub :: "ndarray \<Rightarrow> ndarray \<Rightarrow> error + ndarray" where
  "np_isub a b =
     bindE (np_sub a b) (\<lambda>c. if shape c = shape a then Inr c
                              else Inl (ValueError ''non-broadcastable output operand''))"

text \<open>\<open>v[np.newaxis, :]\<close> of a rank-1 \<open>v\<close>, \<open>np.sum(a, 0)\<close> (the column sums) and
  \<open>np.sqrt\<close> of a rank-1 array.\<close>

definition newaxis_row :: "real list \<Rightarrow> ndarray" where
  "newaxis_row v = NDArray [1, length v] v"

definition np_sum0 :: "ndarray \<Rightarrow> real list" where
  "np_sum0 a = map (\<lambda>j. sum_list (map (\<lambda>i. at2 a i j) [0..<nrows a])) [0..<ncols a]"

definition np_sqrt :: "real list \<Rightarrow> real list" where
  "np_sqrt v = map sqrt v"

text \<open>The boolean mask: \<open>np.where(v > t, True, False)\<close>, the elementwise \<open>&\<close> of two
  rank-1 boolean arrays (broadcast when one has length 1) and \<open>mask.sum()\<close>.\<close>

definition np_where_gt :: "real list \<Rightarrow> real \<Rightarrow> bool list" where
  "np_where_gt v t = map (\<lambda>r. r > t) v"

definition np_and :: "bool list \<Rightarrow> bool list \<Rightarrow> error + bool list" where
  "np_and p q =
     (if length p = length q \<or> length p = 1 \<or> length q = 1
      then Inr (map (\<lambda>i. p ! (if length p = 1 then 0 else i) \<and> q ! (if length q = 1 then 0 else i))
                  [0..<bdim (length p) (length q)])
      else Inl (ValueError ''operands could not be broadcast together''))"

definition mask_sum :: "bool list \<Rightarrow> nat" where
  "mask_sum p = length (filter (\<lambda>b. b) p)"

text \<open>Indexing. \<open>a[:, mask]\<close> keeps the columns where the boolean mask is true (the mask
  is as long as the array is wide), \<open>a[:, ii]\<close> takes the columns listed in \<open>ii\<close>,
  \<open>v[ii]\<close> the entries of a rank-1 array, and \<open>a[lo:hi]\<close> a range of rows, clipped to
  the array as Python slices are.\<close>

definition mask_indices :: "bool list \<Rightarrow> nat list" where
  "mask_indices p = filter (\<lambda>i. p ! i) [0..<length p]"

definition columns_mask :: "ndarray \<Rightarrow> bool list \<Rightarrow> error + ndarray" where
  "columns_mask a p =
     (if ndim a = 2 \<and> length p = ncols a
      then Inr (mk2 (nrows a) (mask_sum p) (\<lambda>i j. at2 a i (mask_indices p ! j)))
      else Inl (IndexError ''boolean index did not match indexed array''))"

definition columns_take :: "ndarray \<Rightarrow> nat list \<Rightarrow> error + ndarray" where
  "columns_take a ii =
     (if ndim a = 2 \<and> list_all (\<lambda>i. i < ncols a) ii
      then Inr (mk2 (nrows a) (length ii) (\<lambda>i j. at2 a i (ii ! j)))
      else Inl (IndexError ''index out of bounds''))"

definition take_idx :: "real list \<Rightarrow> nat list \<Rightarrow> real list" where
  "take_idx v ii = map (\<lambda>i. v ! i) ii"

definition rows_slice :: "ndarray \<Rightarrow> nat \<Rightarrow> nat \<Rightarrow> ndarray" where
  "rows_slice a lo hi =
     mk2 (min hi (nrows a) - min lo (nrows a)) (ncols a) (\<lambda>i j. at2 a (lo + i) j)"

definition rows_from :: "ndarray \<Rightarrow> nat \<Rightarrow> ndarray" where
  "rows_from a lo = rows_slice a lo (nrows a)"

text \<open>\<open>np.bmat\<close>: the blocks of one row are joined side by side (they have the same
  number of rows), and the rows of blocks are stacked (they have the same number of
  columns); numpy raises ValueError otherwise.\<close>

definition hstack2 :: "ndarray \<Rightarrow> ndarray \<Rightarrow> error + ndarray" where
  "hstack2 a b =
     (if ndim a = 2 \<and> ndim b = 2 \<and> nrows a = nrows b
      then Inr (mk2 (nrows a) (ncols a + ncols b)
                  (\<lambda>i j. if j < ncols a then at2 a i j else at2 b i (j - ncols a)))
      else Inl (ValueError ''all the input array dimensions except for the concatenation axis must match exactly''))"

definition vstack2 :: "ndarray \<Rightarrow> ndarray \<Rightarrow> error + ndarray" where
  "vstack2 a b =
     (if ndim a = 2 \<and> ndim b = 2 \<and> ncols a = ncols b
      then Inr (mk2 (nrows a + nrows b) (ncols a)
                  (\<lambda>i j. if i < nrows a then at2 a i j else at2 b (i - nrows a) j))
      else Inl (ValueError ''all the input array dimensions except for the concatenation axis must match exactly''))"

fun hstack :: "ndarray list \<Rightarrow> error + ndarray" where
  "hstack [] = Inl (ValueError ''need at least one array to concatenate'')"
| "hstack [a] = (if ndim a = 2 then Inr a else Inl (ValueError ''matrix must be 2-dimensional''))"
| "hstack (a # b # bs) = bindE (hstack2 a b) (\<lambda>c. hstack (c # bs))"

fun vstack :: "ndarray list \<Rightarrow> error + ndarray" where
  "vstack [] = Inl (ValueError ''need at least one array to concatenate'')"
| "vstack [a] = (if ndim a = 2 then Inr a else Inl (ValueError ''matrix must be 2-dimensional''))"
| "vstack (a # b # bs) = bindE (vstack2 a b) (\<lambda>c. vstack (c # bs))"

fun mapE :: "('a \<Rightarrow> error + 'b) \<Rightarrow> 'a list \<Rightarrow> error + 'b list" where
  "mapE f [] = Inr []"
| "mapE f (x # xs) = bindE (f x) (\<lambda>y. bindE (mapE f xs) (\<lambda>ys. Inr (y # ys)))"

definition np_bmat :: "ndarray list list \<Rightarrow> error + ndarray" where
  "np_bmat blocks = bindE (mapE hstack blocks) vstack"

text \<open>\<open>np.argsort\<close> of a rank-1 array: the indices in ascending order of their values
  (equal values keep their order).\<close>

definition np_argsort :: "real list \<Rightarrow> nat list" where
  "np_argsort v = sort_key (\<lambda>i. v ! i) [0..<length v]"

subsection \<open>The external routines\<close>

text \<open>
  The dense routines of \<open>scipy.linalg\<close> that the module calls are parameters of the
  model: \<open>eigh a b eigvals\<close> is \<open>eigh(a, b, eigvals=eigvals, check_finite=False)\<close> and
  returns the eigenvalues and the block of eigenvectors, \<open>cholesky\<close> returns the upper
  triangular factor, \<open>linalg_inv\<close> is \<open>scipy.linalg.inv\<close>, and \<open>cho_factor\<close> and
  \<open>cho_solve\<close> factor and solve with the factor and its \<open>lower\<close> flag. Each of them can
  raise.
\<close>

record scipy_linalg =
  eigh :: "ndarray \<Rightarrow> ndarray option \<Rightarrow> (int \<times> int) option \<Rightarrow> error + (real list \<times> ndarray)"
  cholesky :: "ndarray \<Rightarrow> error + ndarray"
  linalg_inv :: "ndarray \<Rightarrow> error + ndarray"
  cho_factor :: "ndarray \<Rightarrow> error + (ndarray \<times> bool)"
  cho_solve :: "(ndarray \<times> bool) \<Rightarrow> ndarray \<Rightarrow> error + ndarray"

text \<open>
  A \<open>LinearOperator\<close> has a shape and a block product \<open>matmat\<close>; calling the operator
  is calling its \<open>matmat\<close>. An operator argument of \<open>lobpcg\<close> is \<open>None\<close> or the
  operator that scipy's \<open>aslinearoperator\<close> makes of the matrix or operator given
  (\<open>MatrixLinearOperator\<close> for a dense matrix).
\<close>

record LinearOperator =
  op_shape :: "nat \<times> nat"
  matmat :: "ndarray \<Rightarrow> error + ndarray"

definition MatrixLinearOperator :: "ndarray \<Rightarrow> LinearOperator" where
  "MatrixLinearOperator a = \<lparr>op_shape = (nrows a, ncols a), matmat = np_dot a\<rparr>"

subsection \<open>The helpers of the module\<close>

text \<open>\<open>_assert_symmetric(M, rtol=1e-5, atol=1e-8)\<close>: \<open>assert_allclose(M.T, M)\<close>.\<close>

definition assert_symmetric :: "ndarray \<Rightarrow> error + unit" where
  "assert_symmetric M =
     (if ndim M = 2 \<and> nrows M = ncols M
         \<and> list_all (\<lambda>i. list_all (\<lambda>j. \<bar>at2 M j i - at2 M i j\<bar>
                                          \<le> 1 / 10 ^ 8 + 1 / 10 ^ 5 * \<bar>at2 M i j\<bar>)
                                  [0..<ncols M]) [0..<nrows M]
      then Inr () else Inl (AssertionError ''Not equal to tolerance''))"

text \<open>\<open>_makeOperator(operatorInput, expectedShape)\<close>.\<close>

definition makeOperator :: "LinearOperator option \<Rightarrow> nat \<times> nat \<Rightarrow> error + LinearOperator" where
  "makeOperator operatorInput expectedShape =
     (let operator = (case operatorInput of
                        None \<Rightarrow> \<lparr>op_shape = expectedShape, matmat = (\<lambda>x. Inr x)\<rparr>
                      | Some inp \<Rightarrow> inp)
      in if op_shape operator \<noteq> expectedShape
         then Inl (ValueError ''operator has invalid shape'')
         else Inr operator)"

text \<open>\<open>_applyConstraints(blockVectorV, factYBY, blockVectorBY, blockVectorY)\<close> changes
  \<open>blockVectorV\<close> in place; the model returns the changed block.\<close>

definition applyConstraints ::
  "scipy_linalg \<Rightarrow> ndarray \<Rightarrow> (ndarray \<times> bool) \<Rightarrow> ndarray \<Rightarrow> ndarray \<Rightarrow> error + ndarray" where
  "applyConstraints env blockVectorV factYBY blockVectorBY blockVectorY =
     bindE (np_dot (np_T blockVectorBY) blockVectorV) (\<lambda>gramYBV.
     bindE (cho_solve env factYBY gramYBV) (\<lambda>tmp.
     bindE (np_dot blockVectorY tmp) (\<lambda>d.
     np_isub blockVectorV d)))"

text \<open>\<open>_b_orthonormalize(B, blockVectorV, blockVectorBV=None, retInvR=False)\<close>. The
  third component of the result is \<open>R\<^sup>-\<^sup>1\<close> when \<open>retInvR\<close> is set. When \<open>B\<close> is \<open>None\<close>
  the second component is the block that came in.\<close>

definition b_orthonormalize ::
  "scipy_linalg \<Rightarrow> LinearOperator option \<Rightarrow> ndarray \<Rightarrow> ndarray option \<Rightarrow> bool
     \<Rightarrow> error + (ndarray \<times> ndarray \<times> ndarray option)" where
  "b_orthonormalize env B blockVectorV blockVectorBV retInvR =
     bindE (case blockVectorBV of
              None \<Rightarrow> (case B of Some b \<Rightarrow> matmat b blockVectorV | None \<Rightarrow> Inr blockVectorV)
            | Some bv \<Rightarrow> Inr bv) (\<lambda>blockVectorBV.
     bindE (np_dot (np_T blockVectorV) blockVectorBV) (\<lambda>gramVBV.
     bindE (cholesky env gramVBV) (\<lambda>gramVBV.
     bindE (linalg_inv env gramVBV) (\<lambda>gramVBV.
     bindE (np_dot blockVectorV gramVBV) (\<lambda>blockVectorV.
     bindE (case B of Some b \<Rightarrow> np_dot blockVectorBV gramVBV | None \<Rightarrow> Inr blockVectorBV)
       (\<lambda>blockVectorBV.
     Inr (blockVectorV, blockVectorBV, if retInvR then Some gramVBV else None)))))))"

subsection \<open>The solver\<close>

text \<open>The indices of the Ritz pairs kept (lines 282--284 and 412--414):
  \<open>ii = np.argsort(_lambda)[:sizeX]\<close>, reversed when \<open>largest\<close>.\<close>

definition ritz_indices :: "real list \<Rightarrow> nat \<Rightarrow> bool \<Rightarrow> nat list" where
  "ritz_indices w sizeX largest =
     (let ii = take sizeX (np_argsort w) in if largest then rev ii else ii)"

text \<open>The default tolerance (lines 225--226).\<close>

definition residualTolerance_of :: "real option \<Rightarrow> nat \<Rightarrow> real" where
  "residualTolerance_of tol n = (case tol of None \<Rightarrow> sqrt (1 / 10 ^ 15) * real n | Some t \<Rightarrow> t)"

text \<open>The value returned: \<open>(lambda, X)\<close>, with one history or with both.\<close>

datatype lobpcg_result =
    Ret2 "real list" ndarray
  | Ret3 "real list" ndarray "real list list"
  | Ret4 "real list" ndarray "real list list" "real list list"

text \<open>What the call fixes before the loop, and the variables the loop changes.\<close>

record lobpcg_ctx =
  linalg :: scipy_linalg
  opA :: LinearOperator
  opB :: LinearOperator
  opM :: LinearOperator
  constraints :: "((ndarray \<times> bool) \<times> ndarray \<times> ndarray) option"
  sizeX :: nat
  ident0 :: ndarray
  largest :: bool
  residualTolerance :: real

record lobpcg_state =
  blockVectorX :: ndarray
  blockVectorAX :: ndarray
  blockVectorBX :: ndarray
  lambda :: "real list"
  activeMask :: "bool list"
  lambdaHistory :: "real list list"
  residualNormsHistory :: "real list list"
  previousBlockSize :: nat
  ident :: ndarray
  blockVectorP :: "ndarray option"
  blockVectorAP :: "ndarray option"
  blockVectorBP :: "ndarray option"
  failureFlag :: bool

datatype loop_step = Break lobpcg_state | Continue lobpcg_state

text \<open>The residuals and their norms (lines 315--319, and again 470--474).\<close>

definition residual_norms :: "lobpcg_state \<Rightarrow> error + (ndarray \<times> real list)" where
  "residual_norms s =
     bindE (np_mul (blockVectorBX s) (newaxis_row (lambda s))) (\<lambda>aux.
     bindE (np_sub (blockVectorAX s) aux) (\<lambda>blockVectorR.
     bindE (np_mul blockVectorR blockVectorR) (\<lambda>aux.
     Inr (blockVectorR, np_sqrt (np_sum0 aux)))))"

text \<open>The active columns (lines 344--349). On the first pass there is no previous
  direction; on a later pass \<open>blockVectorP\<close>, \<open>blockVectorAP\<close> and \<open>blockVectorBP\<close> are
  the blocks stored by the pass before (indexing \<open>None\<close> is a TypeError).\<close>

definition active_P ::
  "lobpcg_state \<Rightarrow> error + (ndarray \<times> ndarray \<times> ndarray)" where
  "active_P s =
     (case (blockVectorP s, blockVectorAP s, blockVectorBP s) of
        (Some P, Some AP, Some BP) \<Rightarrow>
          bindE (columns_mask P (activeMask s)) (\<lambda>activeBlockVectorP.
          bindE (columns_mask AP (activeMask s)) (\<lambda>activeBlockVectorAP.
          bindE (columns_mask BP (activeMask s)) (\<lambda>activeBlockVectorBP.
          Inr (activeBlockVectorP, activeBlockVectorAP, activeBlockVectorBP))))
      | _ \<Rightarrow> Inl (TypeError ''NoneType object is not subscriptable''))"

text \<open>The preconditioner and the constraints on the active residuals (lines 351--359).\<close>

definition precondition :: "lobpcg_ctx \<Rightarrow> ndarray \<Rightarrow> error + ndarray" where
  "precondition ctx activeBlockVectorR =
     bindE (matmat (opM ctx) activeBlockVectorR) (\<lambda>activeBlockVectorR.
     (case constraints ctx of
        None \<Rightarrow> Inr activeBlockVectorR
      | Some (gramYBY, blockVectorBY, blockVectorY) \<Rightarrow>
          applyConstraints (linalg ctx) activeBlockVectorR gramYBY blockVectorBY blockVectorY))"

text \<open>B-orthonormalising the active residuals and the active directions (lines
  364--373); the result is \<open>(R, BR, AR)\<close> and, on a later pass, \<open>(P, AP, BP)\<close>.\<close>

definition orthonormalize_active ::
  "lobpcg_ctx \<Rightarrow> ndarray \<Rightarrow> (ndarray \<times> ndarray \<times> ndarray) option
     \<Rightarrow> error + ((ndarray \<times> ndarray \<times> ndarray) \<times> (ndarray \<times> ndarray \<times> ndarray) option)" where
  "orthonormalize_active ctx activeBlockVectorR activeP =
     bindE (b_orthonormalize (linalg ctx) (Some (opB ctx)) activeBlockVectorR None False)
       (\<lambda>(activeBlockVectorR, activeBlockVectorBR, _).
     bindE (matmat (opA ctx) activeBlockVectorR) (\<lambda>activeBlockVectorAR.
     bindE (case activeP of
              None \<Rightarrow> Inr None
            | Some (activeBlockVectorP, activeBlockVectorAP, activeBlockVectorBP) \<Rightarrow>
                bindE (b_orthonormalize (linalg ctx) (Some (opB ctx)) activeBlockVectorP
                         (Some activeBlockVectorBP) True)
                  (\<lambda>(activeBlockVectorP, activeBlockVectorBP, invR).
                bindE (case invR of Some r \<Rightarrow> np_dot activeBlockVectorAP r
                                  | None \<Rightarrow> Inl (TypeError ''NoneType''))
                  (\<lambda>activeBlockVectorAP.
                Inr (Some (activeBlockVectorP, activeBlockVectorAP, activeBlockVectorBP)))))
       (\<lambda>activeP.
     Inr ((activeBlockVectorR, activeBlockVectorBR, activeBlockVectorAR), activeP))))"

text \<open>The Gram matrices of the Rayleigh-Ritz procedure and their symmetry assertions
  (lines 379--404).\<close>

definition gram_matrices ::
  "lobpcg_ctx \<Rightarrow> lobpcg_state \<Rightarrow> (ndarray \<times> ndarray \<times> ndarray)
     \<Rightarrow> (ndarray \<times> ndarray \<times> ndarray) option \<Rightarrow> error + (ndarray \<times> ndarray)" where
  "gram_matrices ctx s activeR activeP =
     (case activeR of (activeBlockVectorR, activeBlockVectorBR, activeBlockVectorAR) \<Rightarrow>
     bindE (np_dot (np_T (blockVectorX s)) activeBlockVectorAR) (\<lambda>xaw.
     bindE (np_dot (np_T activeBlockVectorR) activeBlockVectorAR) (\<lambda>waw.
     bindE (np_dot (np_T (blockVectorX s)) activeBlockVectorBR) (\<lambda>xbw.
     bindE (case activeP of
              Some (activeBlockVectorP, activeBlockVectorAP, activeBlockVectorBP) \<Rightarrow>
                bindE (np_dot (np_T (blockVectorX s)) activeBlockVectorAP) (\<lambda>xap.
                bindE (np_dot (np_T activeBlockVectorR) activeBlockVectorAP) (\<lambda>wap.
                bindE (np_dot (np_T activeBlockVectorP) activeBlockVectorAP) (\<lambda>pap.
                bindE (np_dot (np_T (blockVectorX s)) activeBlockVectorBP) (\<lambda>xbp.
                bindE (np_dot (np_T activeBlockVectorR) activeBlockVectorBP) (\<lambda>wbp.
                bindE (np_bmat [[np_diag (lambda s), xaw, xap],
                                [np_T xaw, waw, wap],
                                [np_T xap, np_T wap, pap]]) (\<lambda>gramA.
                bindE (np_bmat [[ident0 ctx, xbw, xbp],
                                [np_T xbw, ident s, wbp],
                                [np_T xbp, np_T wbp, ident s]]) (\<lambda>gramB.
                Inr (gramA, gramB))))))))
            | None \<Rightarrow>
                bindE (np_bmat [[np_diag (lambda s), xaw],
                                [np_T xaw, waw]]) (\<lambda>gramA.
                bindE (np_bmat [[ident0 ctx, xbw],
                                [np_T xbw, ident s]]) (\<lambda>gramB.
                Inr (gramA, gramB)))) (\<lambda>(gramA, gramB).
     bindE (assert_symmetric gramA) (\<lambda>_.
     bindE (assert_symmetric gramB) (\<lambda>_.
     Inr (gramA, gramB))))))))"

text \<open>The small generalized eigenproblem and the selection of its eigenpairs (lines
  411--419).\<close>

definition solve_ritz :: "lobpcg_ctx \<Rightarrow> ndarray \<Rightarrow> ndarray \<Rightarrow> error + (real list \<times> ndarray)" where
  "solve_ritz ctx gramA gramB =
     bindE (eigh (linalg ctx) gramA (Some gramB) None) (\<lambda>(w, eigBlockVector).
     let ii = ritz_indices w (sizeX ctx) (largest ctx) in
     bindE (columns_take eigBlockVector ii) (\<lambda>eigBlockVector.
     Inr (take_idx w ii, eigBlockVector)))"

text \<open>The Ritz vectors (lines 437--466): the result is \<open>(X, AX, BX)\<close> and
  \<open>(pp, app, bpp)\<close>.\<close>

definition ritz_vectors ::
  "lobpcg_ctx \<Rightarrow> lobpcg_state \<Rightarrow> nat \<Rightarrow> ndarray \<Rightarrow> (ndarray \<times> ndarray \<times> ndarray)
     \<Rightarrow> (ndarray \<times> ndarray \<times> ndarray) option
     \<Rightarrow> error + ((ndarray \<times> ndarray \<times> ndarray) \<times> (ndarray \<times> ndarray \<times> ndarray))" where
  "ritz_vectors ctx s currentBlockSize eigBlockVector activeR activeP =
     (case activeR of (activeBlockVectorR, activeBlockVectorBR, activeBlockVectorAR) \<Rightarrow>
     let eigBlockVectorX = rows_slice eigBlockVector 0 (sizeX ctx) in
     bindE (case activeP of
              Some (activeBlockVectorP, activeBlockVectorAP, activeBlockVectorBP) \<Rightarrow>
                (let eigBlockVectorR =
                       rows_slice eigBlockVector (sizeX ctx) (sizeX ctx + currentBlockSize);
                     eigBlockVectorP = rows_from eigBlockVector (sizeX ctx + currentBlockSize)
                 in
                 bindE (np_dot activeBlockVectorR eigBlockVectorR) (\<lambda>pp.
                 bindE (np_dot activeBlockVectorP eigBlockVectorP) (\<lambda>d.
                 bindE (np_iadd pp d) (\<lambda>pp.
                 bindE (np_dot activeBlockVectorAR eigBlockVectorR) (\<lambda>app.
                 bindE (np_dot activeBlockVectorAP eigBlockVectorP) (\<lambda>d.
                 bindE (np_iadd app d) (\<lambda>app.
                 bindE (np_dot activeBlockVectorBR eigBlockVectorR) (\<lambda>bpp.
                 bindE (np_dot activeBlockVectorBP eigBlockVectorP) (\<lambda>d.
                 bindE (np_iadd bpp d) (\<lambda>bpp.
                 Inr (pp, app, bpp)))))))))))
            | None \<Rightarrow>
                (let eigBlockVectorR = rows_from eigBlockVector (sizeX ctx) in
                 bindE (np_dot activeBlockVectorR eigBlockVectorR) (\<lambda>pp.
                 bindE (np_dot activeBlockVectorAR eigBlockVectorR) (\<lambda>app.
                 bindE (np_dot activeBlockVectorBR eigBlockVectorR) (\<lambda>bpp.
                 Inr (pp, app, bpp)))))) (\<lambda>(pp, app, bpp).
     bindE (np_dot (blockVectorX s) eigBlockVectorX) (\<lambda>d.
     bindE (np_add d pp) (\<lambda>blockVectorX'.
     bindE (np_dot (blockVectorAX s) eigBlockVectorX) (\<lambda>d.
     bindE (np_add d app) (\<lambda>blockVectorAX'.
     bindE (np_dot (blockVectorBX s) eigBlockVectorX) (\<lambda>d.
     bindE (np_add d bpp) (\<lambda>blockVectorBX'.
     Inr ((blockVectorX', blockVectorAX', blockVectorBX'), (pp, app, bpp))))))))))"

text \<open>The rest of a pass of the loop once the active block is not empty (lines
  344--468), as a change of the loop's variables.\<close>

definition ritz_step ::
  "lobpcg_ctx \<Rightarrow> nat \<Rightarrow> lobpcg_state \<Rightarrow> ndarray \<Rightarrow> nat \<Rightarrow> error + lobpcg_state" where
  "ritz_step ctx iterationNumber s blockVectorR currentBlockSize =
     bindE (columns_mask blockVectorR (activeMask s)) (\<lambda>activeBlockVectorR.
     bindE (if iterationNumber > 0 then bindE (active_P s) (\<lambda>p. Inr (Some p)) else Inr None)
       (\<lambda>activeP.
     bindE (precondition ctx activeBlockVectorR) (\<lambda>activeBlockVectorR.
     bindE (orthonormalize_active ctx activeBlockVectorR activeP) (\<lambda>(activeR, activeP).
     bindE (gram_matrices ctx s activeR activeP) (\<lambda>(gramA, gramB).
     bindE (solve_ritz ctx gramA gramB) (\<lambda>(lambda', eigBlockVector).
     bindE (ritz_vectors ctx s currentBlockSize eigBlockVector activeR activeP)
       (\<lambda>((blockVectorX', blockVectorAX', blockVectorBX'), (pp, app, bpp)).
     Inr (s\<lparr>lambda := lambda',
             lambdaHistory := lambdaHistory s @ [lambda'],
             blockVectorX := blockVectorX',
             blockVectorAX := blockVectorAX',
             blockVectorBX := blockVectorBX',
             blockVectorP := Some pp,
             blockVectorAP := Some app,
             blockVectorBP := Some bpp\<rparr>))))))))"

text \<open>One pass of the main loop (lines 311--468).\<close>

definition lobpcg_iteration :: "lobpcg_ctx \<Rightarrow> nat \<Rightarrow> lobpcg_state \<Rightarrow> error + loop_step" where
  "lobpcg_iteration ctx iterationNumber s =
     bindE (residual_norms s) (\<lambda>(blockVectorR, residualNorms).
     bindE (np_and (activeMask s) (np_where_gt residualNorms (residualTolerance ctx)))
       (\<lambda>activeMask'.
     let currentBlockSize = mask_sum activeMask';
         s1 = s\<lparr>residualNormsHistory := residualNormsHistory s @ [residualNorms],
                 activeMask := activeMask'\<rparr>;
         s2 = (if currentBlockSize \<noteq> previousBlockSize s1
               then s1\<lparr>previousBlockSize := currentBlockSize,
                        ident := np_eye currentBlockSize\<rparr>
               else s1)
     in if currentBlockSize = 0
        then Inr (Break (s2\<lparr>failureFlag := False\<rparr>))
        else bindE (ritz_step ctx iterationNumber s2 blockVectorR currentBlockSize)
               (\<lambda>s3. Inr (Continue s3))))"

text \<open>\<open>for iterationNumber in xrange(maxIterations)\<close>, over the list of the iteration
  numbers still to run.\<close>

fun lobpcg_for :: "lobpcg_ctx \<Rightarrow> nat list \<Rightarrow> lobpcg_state \<Rightarrow> error + lobpcg_state" where
  "lobpcg_for ctx [] s = Inr s"
| "lobpcg_for ctx (iterationNumber # rest) s =
     (case lobpcg_iteration ctx iterationNumber s of
        Inl e \<Rightarrow> Inl e
      | Inr (Break s') \<Rightarrow> Inr s'
      | Inr (Continue s') \<Rightarrow> lobpcg_for ctx rest s')"

text \<open>Before the loop (lines 253--309): the constraints, the B-orthonormal \<open>X\<close>, the
  initial Ritz pairs and the loop's variables.\<close>

definition setup_constraints ::
  "scipy_linalg \<Rightarrow> LinearOperator \<Rightarrow> ndarray \<Rightarrow> ndarray option
     \<Rightarrow> error + (ndarray \<times> ((ndarray \<times> bool) \<times> ndarray \<times> ndarray) option)" where
  "setup_constraints env B X Y =
     (case Y of
        None \<Rightarrow> Inr (X, None)
      | Some blockVectorY \<Rightarrow>
          bindE (matmat B blockVectorY) (\<lambda>blockVectorBY.
          bindE (np_dot (np_T blockVectorY) blockVectorBY) (\<lambda>gramYBY.
          bindE (case cho_factor env gramYBY of
                   Inl e \<Rightarrow> Inl (ValueError ''cannot handle linearly dependent constraints'')
                 | Inr f \<Rightarrow> Inr f) (\<lambda>gramYBY.
          bindE (applyConstraints env X gramYBY blockVectorBY blockVectorY)
            (\<lambda>blockVectorX.
          Inr (blockVectorX, Some (gramYBY, blockVectorBY, blockVectorY)))))))"

definition lobpcg_initial ::
  "scipy_linalg \<Rightarrow> LinearOperator \<Rightarrow> LinearOperator \<Rightarrow> LinearOperator \<Rightarrow> ndarray
     \<Rightarrow> ndarray option \<Rightarrow> nat \<Rightarrow> bool \<Rightarrow> real \<Rightarrow> error + (lobpcg_ctx \<times> lobpcg_state)" where
  "lobpcg_initial env A B M X Y sizeX' largest' residualTolerance' =
     bindE (setup_constraints env B X Y) (\<lambda>(blockVectorX, cons).
     bindE (b_orthonormalize env (Some B) blockVectorX None False)
       (\<lambda>(blockVectorX, blockVectorBX, _).
     bindE (matmat A blockVectorX) (\<lambda>blockVectorAX.
     bindE (np_dot (np_T blockVectorX) blockVectorAX) (\<lambda>gramXAX.
     bindE (np_dot (np_T blockVectorX) blockVectorX) (\<lambda>gramXBX.
     bindE (eigh env gramXAX None None) (\<lambda>(w, eigBlockVector).
     let ii = ritz_indices w sizeX' largest' in
     bindE (columns_take eigBlockVector ii) (\<lambda>eigBlockVector.
     bindE (np_dot blockVectorX eigBlockVector) (\<lambda>blockVectorX.
     bindE (np_dot blockVectorAX eigBlockVector) (\<lambda>blockVectorAX.
     bindE (np_dot blockVectorBX eigBlockVector) (\<lambda>blockVectorBX.
     Inr (\<lparr>linalg = env, opA = A, opB = B, opM = M, constraints = cons,
            sizeX = sizeX', ident0 = np_eye sizeX', largest = largest',
            residualTolerance = residualTolerance'\<rparr>,
          \<lparr>blockVectorX = blockVectorX, blockVectorAX = blockVectorAX,
            blockVectorBX = blockVectorBX, lambda = take_idx w ii,
            activeMask = replicate sizeX' True,
            lambdaHistory = [take_idx w ii], residualNormsHistory = [],
            previousBlockSize = sizeX', ident = np_eye sizeX',
            blockVectorP = None, blockVectorAP = None, blockVectorBP = None,
            failureFlag = True\<rparr>)))))))))))"

text \<open>After the loop (lines 470--489): the final residual norms are computed, and the
  tuple returned is chosen by the two history flags.\<close>

definition lobpcg_return :: "lobpcg_state \<Rightarrow> bool \<Rightarrow> bool \<Rightarrow> error + lobpcg_result" where
  "lobpcg_return s retLambdaHistory retResidualNormsHistory =
     bindE (residual_norms s) (\<lambda>(blockVectorR, residualNorms).
     Inr (if retLambdaHistory
          then (if retResidualNormsHistory
                then Ret4 (lambda s) (blockVectorX s) (lambdaHistory s) (residualNormsHistory s)
                else Ret3 (lambda s) (blockVectorX s) (lambdaHistory s))
          else (if retResidualNormsHistory
                then Ret3 (lambda s) (blockVectorX s) (residualNormsHistory s)
                else Ret2 (lambda s) (blockVectorX s))))"

text \<open>The dense solver used when the problem is small (lines 211--223).\<close>

definition dense_fallback ::
  "scipy_linalg \<Rightarrow> LinearOperator \<Rightarrow> LinearOperator \<Rightarrow> ndarray option \<Rightarrow> nat \<Rightarrow> nat \<Rightarrow> bool
     \<Rightarrow> error + lobpcg_result" where
  "dense_fallback env A B Y n sizeX' largest' =
     (if Y \<noteq> None
      then Inl (NotImplementedError ''The dense eigensolver does not support constraints.'')
      else let eigvals = (if largest' then (int n - int sizeX', int n - 1)
                          else (0, int sizeX' - 1))
           in bindE (matmat A (np_eye n)) (\<lambda>A_dense.
              bindE (matmat B (np_eye n)) (\<lambda>B_dense.
              bindE (eigh env A_dense (Some B_dense) (Some eigvals)) (\<lambda>(w, v).
              Inr (Ret2 w v)))))"

text \<open>The number of constraints (lines 190--193): \<open>blockVectorY.shape[1]\<close>, or 0
  without constraints.\<close>

definition sizeY_of :: "ndarray option \<Rightarrow> error + nat" where
  "sizeY_of Y =
     (case Y of
        Some blockVectorY \<Rightarrow>
          (if 1 < ndim blockVectorY then Inr (shape blockVectorY ! 1)
           else Inl (IndexError ''tuple index out of range''))
      | None \<Rightarrow> Inr 0)"

text \<open>\<open>lobpcg(A, X, B, M, Y, tol, maxiter, largest, verbosityLevel=0, retLambdaHistory,
  retResidualNormsHistory)\<close>.\<close>

definition lobpcg ::
  "scipy_linalg \<Rightarrow> LinearOperator option \<Rightarrow> ndarray \<Rightarrow> LinearOperator option
     \<Rightarrow> LinearOperator option \<Rightarrow> ndarray option \<Rightarrow> real option \<Rightarrow> int \<Rightarrow> bool \<Rightarrow> bool \<Rightarrow> bool
     \<Rightarrow> error + lobpcg_result" where
  "lobpcg env A X B M Y tol maxiter largest' retLambdaHistory retResidualNormsHistory =
     bindE (sizeY_of Y) (\<lambda>sizeY.
     if ndim X \<noteq> 2 then Inl (ValueError ''expected rank-2 array for argument X'')
     else let n = nrows X; sizeX' = ncols X in
     if sizeX' > n then Inl (ValueError ''X column dimension exceeds the row dimension'')
     else
     bindE (makeOperator A (n, n)) (\<lambda>A.
     bindE (makeOperator B (n, n)) (\<lambda>B.
     bindE (makeOperator M (n, n)) (\<lambda>M.
     if int n - int sizeY < 5 * int sizeX'
     then dense_fallback env A B Y n sizeX' largest'
     else
       let residualTolerance' = residualTolerance_of tol n;
           maxIterations = min (int n) maxiter
       in
       bindE (lobpcg_initial env A B M X Y sizeX' largest' residualTolerance') (\<lambda>(ctx, s0).
       bindE (lobpcg_for ctx [0..<nat maxIterations] s0) (\<lambda>s.
       lobpcg_return s retLambdaHistory retResidualNormsHistory))))))"

subsection \<open>Notions used in the statements\<close>

text \<open>The loop's variables after a pass, whether the pass broke out of the loop or
  not.\<close>

definition step_state :: "loop_step \<Rightarrow> lobpcg_state" where
  "step_state st = (case st of Break s \<Rightarrow> s | Continue s \<Rightarrow> s)"

text \<open>A later mask \<open>m\<close> against an earlier mask \<open>p\<close>: a column that is off in \<open>p\<close> is
  off in \<open>m\<close> (the length changes only when a mask of length 1 is broadcast).\<close>

definition mask_le :: "bool list \<Rightarrow> bool list \<Rightarrow> bool" where
  "mask_le p m \<longleftrightarrow> (length m = length p \<or> length p = 1)
      \<and> (\<forall>i. i < length p \<and> i < length m \<and> \<not> p ! i \<longrightarrow> \<not> m ! i)"

text \<open>The shapes of \<open>AX\<close>, \<open>BX\<close> and the eigenvalues fit together, so that the residuals
  can be formed.\<close>

definition shapes_agree :: "lobpcg_state \<Rightarrow> bool" where
  "shapes_agree s \<longleftrightarrow>
     ndim (blockVectorAX s) = 2 \<and> ndim (blockVectorBX s) = 2
     \<and> nrows (blockVectorAX s) = nrows (blockVectorBX s)
     \<and> ncols (blockVectorAX s) = length (lambda s)
     \<and> ncols (blockVectorBX s) = length (lambda s)"

text \<open>The matrix product of two rank-2 arrays, as a total function: what \<open>np.dot\<close>
  returns when the shapes fit.\<close>

definition mdot :: "ndarray \<Rightarrow> ndarray \<Rightarrow> ndarray" where
  "mdot a b = mk2 (nrows a) (ncols b)
                (\<lambda>i j. sum_list (map (\<lambda>l. at2 a i l * at2 b l j) [0..<ncols a]))"

text \<open>The operator \<open>B\<close> applied to a block, \<open>B\<close> absent standing for the identity
  (lines 102--106).\<close>

definition apply_B :: "LinearOperator option \<Rightarrow> ndarray \<Rightarrow> error + ndarray" where
  "apply_B B V = (case B of Some b \<Rightarrow> matmat b V | None \<Rightarrow> Inr V)"

subsection \<open>Examples\<close>

text \<open>
  A small instance used to run the definitions: dense routines that are exact on
  diagonal matrices (with \<open>b\<close> the identity), and on the one 2 by 2 Gram matrix that the
  example run below meets.
\<close>

definition example_gramA :: ndarray where
  "example_gramA = NDArray [2, 2] [3 / 4, 1, 1, 4 / 3]"

definition diag_eigh ::
  "ndarray \<Rightarrow> ndarray option \<Rightarrow> (int \<times> int) option \<Rightarrow> error + (real list \<times> ndarray)" where
  "diag_eigh a b r =
     (if a = example_gramA
      then Inr ([0, 25 / 12], NDArray [2, 2] [4 / 5, 3 / 5, - (3 / 5), 4 / 5])
      else let idx = (case r of None \<Rightarrow> [0..<nrows a]
                              | Some (lo, hi) \<Rightarrow> [nat lo..<nat hi + 1])
           in Inr (map (\<lambda>i. at2 a i i) idx,
                   mk2 (nrows a) (length idx) (\<lambda>i j. if i = idx ! j then 1 else 0)))"

definition diag_linalg :: scipy_linalg where
  "diag_linalg =
     \<lparr>eigh = diag_eigh,
      cholesky = (\<lambda>a. Inr (mk2 (nrows a) (nrows a) (\<lambda>i j. if i = j then sqrt (at2 a i i) else 0))),
      linalg_inv = (\<lambda>a. Inr (mk2 (nrows a) (nrows a) (\<lambda>i j. if i = j then 1 / at2 a i i else 0))),
      cho_factor = (\<lambda>a. Inr (mk2 (nrows a) (nrows a) (\<lambda>i j. if i = j then sqrt (at2 a i i) else 0),
                             False)),
      cho_solve = (\<lambda>(c, lower) b.
                     Inr (mk2 (nrows b) (ncols b) (\<lambda>i j. at2 b i j / (at2 c i i * at2 c i i))))\<rparr>"

text \<open>A 2 by 2 problem (small enough for the dense solver) and a 5 by 5 problem with a
  block of one column (iterated).\<close>

definition example_A2 :: LinearOperator where
  "example_A2 = MatrixLinearOperator (NDArray [2, 2] [1, 0, 0, 2])"

definition example_X2 :: ndarray where
  "example_X2 = NDArray [2, 1] [1, 0]"

definition example_Y2 :: ndarray where
  "example_Y2 = NDArray [2, 1] [0, 1]"

definition example_A5 :: LinearOperator where
  "example_A5 = MatrixLinearOperator (NDArray [5, 5]
     [3 / 4, 1, 0, 0, 0,
      1, 4 / 3, 0, 0, 0,
      0, 0, 3, 0, 0,
      0, 0, 0, 4, 0,
      0, 0, 0, 0, 5])"

definition example_X5 :: ndarray where
  "example_X5 = NDArray [5, 1] [1, 0, 0, 0, 0]"

text \<open>The run of \<open>lobpcg\<close> on the 5 by 5 problem with \<open>tol = 1/2\<close>, looking for the
  smallest eigenvalue: the operators made of \<open>None\<close>, what the call fixes, and the
  loop's variables before the loop, after the first pass (which continues) and after
  the second (which finds the residual below the tolerance and breaks).\<close>

definition example_I5 :: LinearOperator where
  "example_I5 = \<lparr>op_shape = (5, 5), matmat = (\<lambda>x. Inr x)\<rparr>"

definition example_ctx :: lobpcg_ctx where
  "example_ctx =
     \<lparr>linalg = diag_linalg, opA = example_A5, opB = example_I5, opM = example_I5,
      constraints = None, sizeX = 1, ident0 = NDArray [1, 1] [1], largest = False,
      residualTolerance = 1 / 2\<rparr>"

definition example_s0 :: lobpcg_state where
  "example_s0 =
     \<lparr>blockVectorX = NDArray [5, 1] [1, 0, 0, 0, 0],
      blockVectorAX = NDArray [5, 1] [3 / 4, 1, 0, 0, 0],
      blockVectorBX = NDArray [5, 1] [1, 0, 0, 0, 0],
      lambda = [3 / 4], activeMask = [True],
      lambdaHistory = [[3 / 4]], residualNormsHistory = [],
      previousBlockSize = 1, ident = NDArray [1, 1] [1],
      blockVectorP = None, blockVectorAP = None, blockVectorBP = None,
      failureFlag = True\<rparr>"

definition example_s1 :: lobpcg_state where
  "example_s1 =
     \<lparr>blockVectorX = NDArray [5, 1] [4 / 5, - (3 / 5), 0, 0, 0],
      blockVectorAX = NDArray [5, 1] [0, 0, 0, 0, 0],
      blockVectorBX = NDArray [5, 1] [4 / 5, - (3 / 5), 0, 0, 0],
      lambda = [0], activeMask = [True],
      lambdaHistory = [[3 / 4], [0]], residualNormsHistory = [[1]],
      previousBlockSize = 1, ident = NDArray [1, 1] [1],
      blockVectorP = Some (NDArray [5, 1] [0, - (3 / 5), 0, 0, 0]),
      blockVectorAP = Some (NDArray [5, 1] [- (3 / 5), - (4 / 5), 0, 0, 0]),
      blockVectorBP = Some (NDArray [5, 1] [0, - (3 / 5), 0, 0, 0]),
      failureFlag = True\<rparr>"

definition example_s2 :: lobpcg_state where
  "example_s2 =
     example_s1\<lparr>residualNormsHistory := [[1], [0]], activeMask := [False],
                 previousBlockSize := 0, ident := NDArray [0, 0] [], failureFlag := False\<rparr>"




text \<open>A 5 by 5 problem whose first two coordinates are coupled by \<open>1e-7\<close>, with the
  loop's variables before the loop and after its first pass under the default
  tolerance.\<close>

definition example_A5_coupled :: LinearOperator where
  "example_A5_coupled = MatrixLinearOperator (NDArray [5, 5]
     [1, 1 / 10 ^ 7, 0, 0, 0,
      1 / 10 ^ 7, 2, 0, 0, 0,
      0, 0, 3, 0, 0,
      0, 0, 0, 4, 0,
      0, 0, 0, 0, 5])"

definition example_c0 :: lobpcg_state where
  "example_c0 =
     example_s0\<lparr>blockVectorAX := NDArray [5, 1] [1, 1 / 10 ^ 7, 0, 0, 0],
                lambda := [1], lambdaHistory := [[1]]\<rparr>"

definition example_c1 :: lobpcg_state where
  "example_c1 =
     example_c0\<lparr>residualNormsHistory := [[1 / 10 ^ 7]], activeMask := [False],
                 previousBlockSize := 0, ident := NDArray [0, 0] [], failureFlag := False\<rparr>"

section \<open>Properties\<close>

subsection \<open>Basic facts\<close>

lemma bindE_Inr: "bindE (Inr x) f = f x"
  by (simp add: bindE_def)


lemma bindE_eq_Inr: "(bindE m f = Inr y) = (\<exists>x. m = Inr x \<and> f x = Inr y)"
  by (cases m) (simp_all add: bindE_def)

lemma shape_mk2: "shape (mk2 m n f) = [m, n]"
  by (simp add: mk2_def)

lemma ndim_mk2: "ndim (mk2 m n f) = 2"
  by (simp add: ndim_def mk2_def)

lemma nrows_mk2: "nrows (mk2 m n f) = m"
  by (simp add: nrows_def mk2_def)

lemma ncols_mk2: "ncols (mk2 m n f) = n"
  by (simp add: ncols_def mk2_def)

text \<open>The equations that evaluate the numpy operations and the example on literals.\<close>

lemmas np_eval =
  ndim_def nrows_def ncols_def mk2_def at2_def np_eye_def np_diag_def np_T_def np_dot_def
  bdim_def broadcast2_def np_add_def np_sub_def np_mul_def np_iadd_def np_isub_def
  newaxis_row_def np_sum0_def np_sqrt_def np_where_gt_def np_and_def mask_sum_def
  mask_indices_def columns_mask_def columns_take_def take_idx_def rows_slice_def
  rows_from_def hstack2_def vstack2_def np_bmat_def np_argsort_def bindE_def
  upt_conv_Cons Let_def

lemmas example_eval =
  example_gramA_def diag_eigh_def diag_linalg_def example_A2_def example_X2_def
  example_Y2_def example_A5_def example_X5_def example_I5_def MatrixLinearOperator_def

lemmas lobpcg_top_eval =
  lobpcg_def sizeY_of_def makeOperator_def dense_fallback_def residualTolerance_of_def

subsection \<open>The example run\<close>

lemma example_initial_tol:
  "lobpcg_initial diag_linalg example_A5 example_I5 example_I5 example_X5 None (Suc 0) False t
     = Inr (example_ctx\<lparr>residualTolerance := t\<rparr>, example_s0)"
  by (simp add: lobpcg_initial_def setup_constraints_def b_orthonormalize_def ritz_indices_def
      np_eval example_eval example_ctx_def example_s0_def)

lemma example_initial:
  "lobpcg_initial diag_linalg example_A5 example_I5 example_I5 example_X5 None (Suc 0) False
     (1 / 2) = Inr (example_ctx, example_s0)"
  by (simp add: example_initial_tol) (simp add: example_ctx_def)

lemma example_residual0:
  "residual_norms example_s0 = Inr (NDArray [5, Suc 0] [0, 1, 0, 0, 0], [1])"
  by (simp add: residual_norms_def example_s0_def np_eval)

lemma example_ritz_step0:
  "ritz_step example_ctx 0 (example_s0\<lparr>residualNormsHistory := [[1]], activeMask := [True]\<rparr>)
     (NDArray [5, Suc 0] [0, 1, 0, 0, 0]) (Suc 0) = Inr example_s1"
  by (simp add: ritz_step_def precondition_def orthonormalize_active_def b_orthonormalize_def
      gram_matrices_def assert_symmetric_def solve_ritz_def ritz_vectors_def ritz_indices_def
      np_eval example_eval example_ctx_def example_s0_def example_s1_def)

lemma example_iteration0: "lobpcg_iteration example_ctx 0 example_s0 = Inr (Continue example_s1)"
proof -
  have m: "np_and (activeMask example_s0) (np_where_gt [1] (residualTolerance example_ctx))
             = Inr [True]"
    by (simp add: example_ctx_def example_s0_def np_where_gt_def np_and_def bdim_def
        upt_conv_Cons)
  have p: "previousBlockSize example_s0 = Suc 0" "residualNormsHistory example_s0 = []"
    by (simp_all add: example_s0_def)
  show ?thesis
    by (simp add: lobpcg_iteration_def example_residual0 m p example_ritz_step0 bindE_Inr
        mask_sum_def)
qed

lemma example_residual1:
  "residual_norms example_s1 = Inr (NDArray [5, Suc 0] [0, 0, 0, 0, 0], [0])"
  by (simp add: residual_norms_def example_s1_def np_eval)

lemma example_iteration1:
  "lobpcg_iteration example_ctx (Suc 0) example_s1 = Inr (Break example_s2)"
proof -
  have m: "np_and (activeMask example_s1) (np_where_gt [0] (residualTolerance example_ctx))
             = Inr [False]"
    by (simp add: example_ctx_def example_s1_def np_where_gt_def np_and_def bdim_def
        upt_conv_Cons)
  have p: "previousBlockSize example_s1 = Suc 0" "residualNormsHistory example_s1 = [[1]]"
    by (simp_all add: example_s1_def)
  show ?thesis
    by (simp add: lobpcg_iteration_def example_residual1 m p bindE_Inr mask_sum_def
        example_s2_def np_eye_def mk2_def)
qed

lemma example_loop1: "lobpcg_for example_ctx [0..<Suc 0] example_s0 = Inr example_s1"
  by (simp add: example_iteration0)

lemma example_loop2: "lobpcg_for example_ctx [0..<Suc (Suc 0)] example_s0 = Inr example_s2"
  by (simp add: upt_conv_Cons example_iteration0 example_iteration1)

lemma example_loop3:
  "lobpcg_for example_ctx [0..<Suc (Suc (Suc 0))] example_s0 = Inr example_s2"
  by (simp add: upt_conv_Cons example_iteration0 example_iteration1)

lemma example_X5_shape: "ndim example_X5 = 2" "nrows example_X5 = 5" "ncols example_X5 = Suc 0"
  by (simp_all add: example_X5_def ndim_def nrows_def ncols_def)

lemma example_operators:
  "makeOperator (Some example_A5) (5, 5) = Inr example_A5"
  "makeOperator None (5, 5) = Inr example_I5"
  by (simp_all add: makeOperator_def example_A5_def MatrixLinearOperator_def nrows_def
      ncols_def example_I5_def)

lemma example_run:
  "lobpcg diag_linalg (Some example_A5) example_X5 None None None (Some (1 / 2)) 1 False
     retLambdaHistory retResidualNormsHistory
   = lobpcg_return example_s1 retLambdaHistory retResidualNormsHistory"
  by (simp add: lobpcg_def sizeY_of_def example_X5_shape example_operators bindE_Inr
      residualTolerance_of_def example_initial example_iteration0)

lemma example_return:
  "lobpcg_return example_s1 True True =
     Inr (Ret4 [0] (NDArray [5, 1] [4 / 5, - (3 / 5), 0, 0, 0]) [[3 / 4], [0]] [[1]])"
  by (simp add: lobpcg_return_def example_residual1 bindE_Inr) (simp add: example_s1_def)

subsection \<open>C1: the Ritz pairs selected\<close>

text \<open>
  C1. At every iteration the \<open>sizeX\<close> eigenpairs kept are, when \<open>largest\<close> is true, meant
  to be those with the largest eigenvalues. The code takes the first \<open>sizeX\<close> indices of
  the ascending order and reverses them: on the eigenvalues 1, 2, 3, 4 of a 4 by 4 Gram
  problem with \<open>sizeX = 2\<close> and \<open>largest\<close> set it keeps the indices 1 and 0, the
  eigenvalues 2 and 1, where the two largest are 4 and 3.
\<close>

theorem ritz_indices_largest_keeps_smallest:
  "ritz_indices [1, 2, 3, 4] 2 True = [1, 0]
   \<and> take_idx [1, 2, 3, 4] (ritz_indices [1, 2, 3, 4] 2 True) = [2, 1]"
  by (simp add: ritz_indices_def np_argsort_def take_idx_def)

subsection \<open>C2: the dense solver on small problems\<close>

text \<open>
  C2. A call that passes the validation of \<open>X\<close> and of the operators, with
  \<open>n < 5 * sizeX\<close> and no constraints, does not iterate: it returns what the dense
  solver \<open>eigh\<close> returns on the dense \<open>A\<close> and \<open>B\<close>, asked for the index range
  \<open>(n - sizeX, n - 1)\<close> when \<open>largest\<close> and \<open>(0, sizeX - 1)\<close> otherwise.
\<close>

theorem lobpcg_dense_fallback:
  assumes X: "ndim X = 2" "ncols X \<le> nrows X"
      and small: "nrows X < 5 * ncols X"
      and A: "makeOperator A (nrows X, nrows X) = Inr opA'"
      and B: "makeOperator B (nrows X, nrows X) = Inr opB'"
      and M: "makeOperator M (nrows X, nrows X) = Inr opM'"
      and Ad: "matmat opA' (np_eye (nrows X)) = Inr A_dense"
      and Bd: "matmat opB' (np_eye (nrows X)) = Inr B_dense"
  shows "lobpcg env A X B M None tol maxiter largest' retLambdaHistory retResidualNormsHistory =
           (case eigh env A_dense (Some B_dense)
                   (Some (if largest' then (int (nrows X) - int (ncols X), int (nrows X) - 1)
                          else (0, int (ncols X) - 1))) of
              Inl e \<Rightarrow> Inl e
            | Inr (w, v) \<Rightarrow> Inr (Ret2 w v))"
  using assms
  by (simp add: lobpcg_def sizeY_of_def dense_fallback_def bindE_def Let_def
      split: sum.splits prod.splits)

theorem lobpcg_dense_fallback_witness:
  "lobpcg diag_linalg (Some example_A2) example_X2 None None None None 20 True False False =
     Inr (Ret2 [2] (NDArray [2, 1] [0, 1]))"
  using lobpcg_dense_fallback [of example_X2 "Some example_A2" example_A2 None
      "\<lparr>op_shape = (2, 2), matmat = (\<lambda>x. Inr x)\<rparr>" None
      "\<lparr>op_shape = (2, 2), matmat = (\<lambda>x. Inr x)\<rparr>" "NDArray [2, 2] [1, 0, 0, 2]"
      "NDArray [2, 2] [1, 0, 0, 1]" diag_linalg None 20 True False False]
  by (simp add: makeOperator_def np_eval example_eval)

subsection \<open>C7: constraints on a small problem\<close>

text \<open>
  C7. A call that passes the validation of \<open>X\<close> and of the operators, with constraints
  \<open>Y\<close> and \<open>n - sizeY < 5 * sizeX\<close>, raises NotImplementedError.
\<close>

theorem lobpcg_constraints_not_implemented:
  assumes X: "ndim X = 2" "ncols X \<le> nrows X"
      and Y: "sizeY_of (Some blockVectorY) = Inr sizeY"
      and small: "int (nrows X) - int sizeY < 5 * int (ncols X)"
      and A: "makeOperator A (nrows X, nrows X) = Inr opA'"
      and B: "makeOperator B (nrows X, nrows X) = Inr opB'"
      and M: "makeOperator M (nrows X, nrows X) = Inr opM'"
  shows "lobpcg env A X B M (Some blockVectorY) tol maxiter largest' retLambdaHistory
           retResidualNormsHistory =
           Inl (NotImplementedError ''The dense eigensolver does not support constraints.'')"
  using assms
  by (simp add: lobpcg_def dense_fallback_def bindE_def Let_def)

theorem lobpcg_constraints_not_implemented_witness:
  "lobpcg diag_linalg (Some example_A2) example_X2 None None (Some example_Y2) None 20 True
     False False =
     Inl (NotImplementedError ''The dense eigensolver does not support constraints.'')"
  using lobpcg_constraints_not_implemented [of example_X2 example_Y2 1 "Some example_A2"
      example_A2 None "\<lparr>op_shape = (2, 2), matmat = (\<lambda>x. Inr x)\<rparr>" None
      "\<lparr>op_shape = (2, 2), matmat = (\<lambda>x. Inr x)\<rparr>" diag_linalg None 20 True False False]
  by (simp add: makeOperator_def sizeY_of_def np_eval example_eval)

subsection \<open>C6: the validation of X\<close>

text \<open>
  C6, as the code has it. When the constraints are absent or an array of rank at
  least 2, every \<open>X\<close> that is not of rank 2, and every rank-2 \<open>X\<close> with more columns
  than rows, is rejected with ValueError whatever the operators are: the operators are
  not looked at. (A block with no column is not rejected by these checks.)
\<close>

theorem lobpcg_invalid_X:
  assumes Y: "sizeY_of Y = Inr sizeY"
      and X: "ndim X \<noteq> 2 \<or> nrows X < ncols X"
  shows "lobpcg env A X B M Y tol maxiter largest' retLambdaHistory retResidualNormsHistory =
           Inl (ValueError (if ndim X \<noteq> 2 then ''expected rank-2 array for argument X''
                            else ''X column dimension exceeds the row dimension''))"
  using assms
  by (auto simp add: lobpcg_def bindE_def Let_def)

theorem lobpcg_invalid_X_witness:
  "lobpcg diag_linalg None (NDArray [3] [1, 2, 3]) None None None None 20 True False False =
     Inl (ValueError ''expected rank-2 array for argument X'')
   \<and> lobpcg diag_linalg None (NDArray [1, 2] [1, 2]) None None (Some example_Y2) None 20 True
       False False =
     Inl (ValueError ''X column dimension exceeds the row dimension'')"
  using lobpcg_invalid_X [of None 0 "NDArray [3] [1, 2, 3]" diag_linalg None None None None 20
      True False False]
    lobpcg_invalid_X [of "Some example_Y2" 1 "NDArray [1, 2] [1, 2]" diag_linalg None None
      None None 20 True False False]
  by (simp add: sizeY_of_def ndim_def nrows_def ncols_def example_Y2_def)

text \<open>The claim as stated fails for a block with no column: a 5 by 0 block passes the
  validation, so that an operator of the wrong shape is reported as such, and with
  well-shaped operators the call returns (the empty block is converged at once).\<close>

theorem lobpcg_empty_block_not_rejected:
  "lobpcg diag_linalg (Some example_A2) (NDArray [5, 0] []) None None None None 20 True False
     False = Inl (ValueError ''operator has invalid shape'')
   \<and> lobpcg diag_linalg None (NDArray [5, 0] []) None None None None 20 True False False =
     Inr (Ret2 [] (NDArray [5, 0] []))"
  by (simp add: lobpcg_top_eval lobpcg_initial_def setup_constraints_def b_orthonormalize_def
      ritz_indices_def lobpcg_iteration_def residual_norms_def lobpcg_return_def
      np_eval example_eval)

subsection \<open>C9: the history flags\<close>

lemma lobpcg_return_flags:
  assumes "lobpcg_return s False False = Inr r"
  shows "r = Ret2 (lambda s) (blockVectorX s)
         \<and> lobpcg_return s True False =
             Inr (Ret3 (lambda s) (blockVectorX s) (lambdaHistory s))
         \<and> lobpcg_return s False True =
             Inr (Ret3 (lambda s) (blockVectorX s) (residualNormsHistory s))
         \<and> lobpcg_return s True True =
             Inr (Ret4 (lambda s) (blockVectorX s) (lambdaHistory s) (residualNormsHistory s))"
  using assms by (auto simp: lobpcg_return_def bindE_eq_Inr)

lemma dense_fallback_Ret2:
  "dense_fallback env A B Y n k lg = Inr r \<Longrightarrow> \<exists>w v. r = Ret2 w v"
  by (auto simp: dense_fallback_def bindE_eq_Inr Let_def split: if_splits)

text \<open>
  C9. With \<open>n - sizeY < 5 * sizeX\<close> the two history flags change nothing, and what is
  returned is a pair; otherwise a call that returns the pair \<open>(w, v)\<close> without the flags
  returns \<open>(w, v, lambdaHistory)\<close>, \<open>(w, v, residualNormsHistory)\<close> or
  \<open>(w, v, lambdaHistory, residualNormsHistory)\<close> with them.
\<close>

theorem lobpcg_history_flags:
  assumes Y: "sizeY_of Y = Inr sizeY"
  shows "(int (nrows X) - int sizeY < 5 * int (ncols X) \<longrightarrow>
            lobpcg env A X B M Y tol maxiter lg retL retR =
              lobpcg env A X B M Y tol maxiter lg False False
            \<and> (\<forall>r. lobpcg env A X B M Y tol maxiter lg retL retR = Inr r
                   \<longrightarrow> (\<exists>w v. r = Ret2 w v)))
       \<and> (\<not> int (nrows X) - int sizeY < 5 * int (ncols X) \<longrightarrow>
            (\<forall>r. lobpcg env A X B M Y tol maxiter lg False False = Inr r \<longrightarrow>
               (\<exists>w v lh rh. r = Ret2 w v
                  \<and> lobpcg env A X B M Y tol maxiter lg True False = Inr (Ret3 w v lh)
                  \<and> lobpcg env A X B M Y tol maxiter lg False True = Inr (Ret3 w v rh)
                  \<and> lobpcg env A X B M Y tol maxiter lg True True = Inr (Ret4 w v lh rh))))"
proof (intro conjI impI allI)
  assume small: "int (nrows X) - int sizeY < 5 * int (ncols X)"
  show "lobpcg env A X B M Y tol maxiter lg retL retR =
          lobpcg env A X B M Y tol maxiter lg False False"
    using Y small by (simp add: lobpcg_def bindE_Inr Let_def cong: if_cong)
  fix r assume "lobpcg env A X B M Y tol maxiter lg retL retR = Inr r"
  then show "\<exists>w v. r = Ret2 w v"
    using Y small
    by (auto simp: lobpcg_def bindE_Inr bindE_eq_Inr Let_def split: if_splits
        dest: dense_fallback_Ret2)
next
  fix r
  assume big: "\<not> int (nrows X) - int sizeY < 5 * int (ncols X)"
     and r: "lobpcg env A X B M Y tol maxiter lg False False = Inr r"
  from r Y big obtain s where
    ret: "lobpcg_return s False False = Inr r"
    and all: "\<And>a b. lobpcg env A X B M Y tol maxiter lg a b = lobpcg_return s a b"
    by (auto simp: lobpcg_def bindE_Inr bindE_eq_Inr Let_def split: if_splits)
  from lobpcg_return_flags[OF ret]
  show "\<exists>w v lh rh. r = Ret2 w v
          \<and> lobpcg env A X B M Y tol maxiter lg True False = Inr (Ret3 w v lh)
          \<and> lobpcg env A X B M Y tol maxiter lg False True = Inr (Ret3 w v rh)
          \<and> lobpcg env A X B M Y tol maxiter lg True True = Inr (Ret4 w v lh rh)"
    by (simp add: all)
qed

theorem lobpcg_history_flags_witness:
  "lobpcg diag_linalg (Some example_A2) example_X2 None None None None 20 True True True =
     Inr (Ret2 [2] (NDArray [2, 1] [0, 1]))
   \<and> (\<exists>lh rh. lobpcg diag_linalg (Some example_A5) example_X5 None None None (Some (1 / 2)) 1
                  False True True =
                Inr (Ret4 [0] (NDArray [5, 1] [4 / 5, - (3 / 5), 0, 0, 0]) lh rh))"
proof -
  have small: "lobpcg diag_linalg (Some example_A2) example_X2 None None None None 20 True
                 False False = Inr (Ret2 [2] (NDArray [2, 1] [0, 1]))"
    by (simp add: lobpcg_top_eval np_eval example_eval)
  have big: "lobpcg diag_linalg (Some example_A5) example_X5 None None None (Some (1 / 2)) 1
               False False False = Inr (Ret2 [0] (NDArray [5, 1] [4 / 5, - (3 / 5), 0, 0, 0]))"
    by (simp add: example_run lobpcg_return_def example_residual1 bindE_Inr)
       (simp add: example_s1_def)
  have Y: "sizeY_of None = Inr 0"
    by (simp add: sizeY_of_def)
  have c2: "int (nrows example_X2) - int 0 < 5 * int (ncols example_X2)"
    by (simp add: example_X2_def nrows_def ncols_def)
  have c5: "\<not> int (nrows example_X5) - int 0 < 5 * int (ncols example_X5)"
    by (simp add: example_X5_def nrows_def ncols_def)
  from lobpcg_history_flags [OF Y, of example_X2 diag_linalg "Some example_A2" None None None
      20 True True True] c2 small
  have first: "lobpcg diag_linalg (Some example_A2) example_X2 None None None None 20 True True
                 True = Inr (Ret2 [2] (NDArray [2, 1] [0, 1]))"
    by simp
  from lobpcg_history_flags [OF Y, of example_X5 diag_linalg "Some example_A5" None None
      "Some (1 / 2)" 1 False True True] c5 big
  have second: "\<exists>lh rh. lobpcg diag_linalg (Some example_A5) example_X5 None None None
                           (Some (1 / 2)) 1 False True True =
                         Inr (Ret4 [0] (NDArray [5, 1] [4 / 5, - (3 / 5), 0, 0, 0]) lh rh)"
    by auto
  from first second show ?thesis by simp
qed

subsection \<open>The loop, pass by pass\<close>

lemma ritz_step_frame:
  assumes "ritz_step ctx it s R c = Inr s'"
  shows "activeMask s' = activeMask s \<and> residualNormsHistory s' = residualNormsHistory s
       \<and> lambdaHistory s' = lambdaHistory s @ [lambda s'] \<and> failureFlag s' = failureFlag s"
  using assms
  by (auto simp: ritz_step_def bindE_eq_Inr split: prod.splits if_splits)

lemma lobpcg_iteration_Break:
  assumes "lobpcg_iteration ctx it s = Inr (Break s')"
  shows "\<exists>R norms. residual_norms s = Inr (R, norms)
          \<and> np_and (activeMask s) (np_where_gt norms (residualTolerance ctx)) = Inr (activeMask s')
          \<and> mask_sum (activeMask s') = 0
          \<and> residualNormsHistory s' = residualNormsHistory s @ [norms]
          \<and> lambdaHistory s' = lambdaHistory s \<and> \<not> failureFlag s'
          \<and> lambda s' = lambda s \<and> blockVectorX s' = blockVectorX s
          \<and> blockVectorAX s' = blockVectorAX s \<and> blockVectorBX s' = blockVectorBX s"
  using assms
  by (auto simp: lobpcg_iteration_def bindE_eq_Inr Let_def split: prod.splits if_splits)

lemma lobpcg_iteration_Continue:
  assumes "lobpcg_iteration ctx it s = Inr (Continue s')"
  shows "\<exists>R norms. residual_norms s = Inr (R, norms)
          \<and> np_and (activeMask s) (np_where_gt norms (residualTolerance ctx)) = Inr (activeMask s')
          \<and> mask_sum (activeMask s') \<noteq> 0
          \<and> residualNormsHistory s' = residualNormsHistory s @ [norms]
          \<and> lambdaHistory s' = lambdaHistory s @ [lambda s'] \<and> failureFlag s' = failureFlag s"
  using assms
  by (auto simp: lobpcg_iteration_def bindE_eq_Inr Let_def split: prod.splits if_splits dest!: ritz_step_frame)

lemma mask_le_refl: "mask_le p p"
  by (simp add: mask_le_def)

lemma mask_le_trans: "mask_le p m \<Longrightarrow> mask_le m r \<Longrightarrow> mask_le p r"
  unfolding mask_le_def
  by (metis less_one)

lemma np_and_mask_le: "np_and p q = Inr m \<Longrightarrow> mask_le p m"
  by (auto simp: np_and_def mask_le_def bdim_def split: if_splits)

lemma lobpcg_iteration_mask_le:
  "lobpcg_iteration ctx it s = Inr st \<Longrightarrow> mask_le (activeMask s) (activeMask (step_state st))"
  by (cases st) (auto simp: step_state_def dest!: lobpcg_iteration_Break lobpcg_iteration_Continue np_and_mask_le)

lemma lobpcg_for_mask_le:
  "lobpcg_for ctx its s = Inr s' \<Longrightarrow> mask_le (activeMask s) (activeMask s')"
proof (induction its arbitrary: s)
  case Nil
  then show ?case by (simp add: mask_le_refl)
next
  case (Cons it its)
  then show ?case
    by (auto split: sum.splits loop_step.splits
        dest!: lobpcg_iteration_mask_le simp: step_state_def intro: mask_le_trans)
qed

lemma lobpcg_for_append:
  "lobpcg_for ctx (xs @ ys) s = Inr s' \<Longrightarrow>
     \<exists>s1. lobpcg_for ctx xs s = Inr s1 \<and> mask_le (activeMask s1) (activeMask s')"
proof (induction xs arbitrary: s)
  case Nil
  then show ?case by (simp add: lobpcg_for_mask_le)
next
  case (Cons x xs)
  then show ?case
    by (auto split: sum.splits loop_step.splits simp: mask_le_refl)
qed

lemma lobpcg_initial_state:
  assumes "lobpcg_initial env A B M X Y k lg tol = Inr (ctx, s0)"
  shows "activeMask s0 = replicate k True \<and> lambdaHistory s0 = [lambda s0]
       \<and> residualNormsHistory s0 = [] \<and> failureFlag s0 \<and> residualTolerance ctx = tol"
  using assms
  by (auto simp: lobpcg_initial_def bindE_eq_Inr Let_def split: prod.splits)

lemma lobpcg_for_histories:
  "lobpcg_for ctx its s = Inr s' \<Longrightarrow>
     (\<exists>ls. lambdaHistory s' = lambdaHistory s @ ls \<and>
       (\<exists>rs. residualNormsHistory s' = residualNormsHistory s @ rs \<and>
      ((failureFlag s' = failureFlag s \<and> length ls = length its \<and> length rs = length its)
       \<or> (\<not> failureFlag s' \<and> length rs = length ls + 1 \<and> length ls < length its))))"
proof (induction its arbitrary: s)
  case Nil
  then show ?case by simp
next
  case (Cons it its)
  show ?case
  proof (cases "lobpcg_iteration ctx it s")
    case (Inl e)
    with Cons.prems show ?thesis by simp
  next
    case (Inr st)
    show ?thesis
    proof (cases st)
      case (Break s1)
      with Inr Cons.prems have "s' = s1" by simp
      with lobpcg_iteration_Break[of ctx it s s1] Inr Break show ?thesis by auto
    next
      case (Continue s1)
      with Inr Cons.prems have loop: "lobpcg_for ctx its s1 = Inr s'" by simp
      from lobpcg_iteration_Continue[of ctx it s s1] Inr Continue
      obtain norms where 1: "residualNormsHistory s1 = residualNormsHistory s @ [norms]"
        "lambdaHistory s1 = lambdaHistory s @ [lambda s1]" "failureFlag s1 = failureFlag s"
        by auto
      from Cons.IH[OF loop] 1 show ?thesis by auto
    qed
  qed
qed

subsection \<open>C4: the active mask\<close>

text \<open>
  C4. The active mask starts all true; a pass of the loop changes it only to its
  elementwise \<open>&\<close> with \<open>residualNorms > residualTolerance\<close>; and so, of the loop's
  variables \<open>st\<close> after at most \<open>t\<close> passes and \<open>st'\<close> after at most \<open>t'\<close> passes with
  \<open>t \<le> t'\<close>, a column that is off in the mask of \<open>st\<close> is off in the mask of \<open>st'\<close>,
  whatever its residual norm has become.
\<close>

theorem activeMask_monotone:
  assumes init: "lobpcg_initial env opA' opB' opM' X Y k lg tol = Inr (ctx, s0)"
      and le: "t \<le> t'"
      and st: "lobpcg_for ctx [0..<t] s0 = Inr st"
      and st': "lobpcg_for ctx [0..<t'] s0 = Inr st'"
  shows "activeMask s0 = replicate k True
       \<and> (\<forall>it s step. lobpcg_iteration ctx it s = Inr step \<longrightarrow>
            (\<exists>R norms. residual_norms s = Inr (R, norms)
               \<and> np_and (activeMask s) (np_where_gt norms tol) = Inr (activeMask (step_state step))))
       \<and> (\<forall>i. i < length (activeMask st) \<and> i < length (activeMask st') \<and> \<not> activeMask st ! i
              \<longrightarrow> \<not> activeMask st' ! i)"
proof (intro conjI allI impI)
  from lobpcg_initial_state[OF init]
  show "activeMask s0 = replicate k True" by simp
next
  fix it s step
  assume step: "lobpcg_iteration ctx it s = Inr step"
  from lobpcg_initial_state[OF init] have tol: "residualTolerance ctx = tol" by simp
  show "\<exists>R norms. residual_norms s = Inr (R, norms)
          \<and> np_and (activeMask s) (np_where_gt norms tol) = Inr (activeMask (step_state step))"
  proof (cases step)
    case (Break s')
    with lobpcg_iteration_Break[of ctx it s s'] step tol show ?thesis
      by (auto simp: step_state_def)
  next
    case (Continue s')
    with lobpcg_iteration_Continue[of ctx it s s'] step tol show ?thesis
      by (auto simp: step_state_def)
  qed
next
  fix i
  assume i: "i < length (activeMask st) \<and> i < length (activeMask st') \<and> \<not> activeMask st ! i"
  from le have "[0..<t'] = [0..<t] @ [t..<t']"
    by (metis le0 upt_add_eq_append le_iff_add)
  with st' lobpcg_for_append[of ctx "[0..<t]" "[t..<t']" s0 st'] st
  have "mask_le (activeMask st) (activeMask st')" by auto
  with i show "\<not> activeMask st' ! i" by (auto simp: mask_le_def)
qed

theorem activeMask_monotone_witness:
  "activeMask example_s0 = replicate (Suc 0) True \<and> \<not> activeMask example_s2 ! 0"
  using activeMask_monotone [OF example_initial, of "Suc (Suc 0)" "Suc (Suc (Suc 0))"
      example_s2 example_s2] example_loop2 example_loop3
  by (simp add: example_s2_def example_s1_def)

subsection \<open>C10: the histories\<close>

text \<open>
  C10. After the loop has been given \<open>m\<close> passes, the first entry of \<open>lambdaHistory\<close>
  is the initial Ritz values. If the loop ran out of passes (\<open>failureFlag\<close> still set:
  it never broke), \<open>lambdaHistory\<close> has \<open>m + 1\<close> entries and \<open>residualNormsHistory\<close>
  has \<open>m\<close>, one less; if it broke on convergence the two are equally long. The
  histories returned are those of the loop: the residual norms computed after the loop
  are not appended.
\<close>

theorem history_bookkeeping:
  assumes init: "lobpcg_initial env opA' opB' opM' X Y k lg tol = Inr (ctx, s0)"
      and loop: "lobpcg_for ctx [0..<m] s0 = Inr s"
  shows "hd (lambdaHistory s) = lambda s0
       \<and> (failureFlag s \<longrightarrow>
            length (lambdaHistory s) = m + 1 \<and> length (residualNormsHistory s) = m)
       \<and> (\<not> failureFlag s \<longrightarrow>
            length (lambdaHistory s) = length (residualNormsHistory s)
            \<and> length (residualNormsHistory s) \<le> m)
       \<and> (\<forall>r. lobpcg_return s True True = Inr r \<longrightarrow>
            r = Ret4 (lambda s) (blockVectorX s) (lambdaHistory s) (residualNormsHistory s))"
proof -
  from lobpcg_initial_state[OF init]
  have s0: "lambdaHistory s0 = [lambda s0]" "residualNormsHistory s0 = []" "failureFlag s0"
    by simp_all
  from lobpcg_for_histories[OF loop] s0 obtain ls rs where
    h: "lambdaHistory s = lambda s0 # ls" "residualNormsHistory s = rs"
    and c: "(failureFlag s \<and> length ls = m \<and> length rs = m)
            \<or> (\<not> failureFlag s \<and> length rs = length ls + 1 \<and> length ls < m)"
    by auto
  have ret: "\<forall>r. lobpcg_return s True True = Inr r \<longrightarrow>
            r = Ret4 (lambda s) (blockVectorX s) (lambdaHistory s) (residualNormsHistory s)"
    by (auto simp: lobpcg_return_def bindE_eq_Inr)
  from h c ret show ?thesis by auto
qed

theorem history_bookkeeping_witness:
  "length (lambdaHistory example_s1) = Suc 0 + 1
   \<and> length (residualNormsHistory example_s1) = Suc 0
   \<and> length (lambdaHistory example_s2) = length (residualNormsHistory example_s2)"
  using history_bookkeeping [OF example_initial example_loop1]
    history_bookkeeping [OF example_initial example_loop2]
  by (simp add: example_s1_def example_s2_def)

subsection \<open>C8: running out of iterations\<close>

lemma np_dot_shape:
  "np_dot a b = Inr c \<Longrightarrow>
     ndim a = 2 \<and> ndim b = 2 \<and> ncols a = nrows b \<and> ndim c = 2 \<and> nrows c = nrows a \<and> ncols c = ncols b"
  by (auto simp: np_dot_def ndim_mk2 nrows_mk2 ncols_mk2 split: if_splits)

lemma broadcast2_shape:
  "broadcast2 f a b = Inr c \<Longrightarrow>
     ndim c = 2 \<and> nrows c = bdim (nrows a) (nrows b) \<and> ncols c = bdim (ncols a) (ncols b)"
  by (auto simp: broadcast2_def ndim_mk2 nrows_mk2 ncols_mk2 split: if_splits)

lemma np_add_shape:
  "np_add a b = Inr c \<Longrightarrow>
     ndim c = 2 \<and> nrows c = bdim (nrows a) (nrows b) \<and> ncols c = bdim (ncols a) (ncols b)"
  unfolding np_add_def by (rule broadcast2_shape)

lemma np_iadd_shape:
  "np_iadd a b = Inr c \<Longrightarrow> ndim c = ndim a \<and> nrows c = nrows a \<and> ncols c = ncols a"
  by (auto simp: np_iadd_def bindE_eq_Inr ndim_def nrows_def ncols_def split: if_splits)

lemma bdim_same: "bdim n n = n"
  by (simp add: bdim_def)

lemma columns_take_shape:
  "columns_take a ii = Inr c \<Longrightarrow> ndim c = 2 \<and> ncols c = length ii \<and> nrows c = nrows a"
  by (auto simp: columns_take_def ndim_mk2 nrows_mk2 ncols_mk2 split: if_splits)

lemma rows_slice_shape: "ndim (rows_slice a lo hi) = 2" "ncols (rows_slice a lo hi) = ncols a"
  by (simp_all add: rows_slice_def ndim_mk2 ncols_mk2)

lemma rows_from_shape: "ndim (rows_from a lo) = 2" "ncols (rows_from a lo) = ncols a"
  by (simp_all add: rows_from_def rows_slice_shape)

lemma ncols_np_T: "ndim a = 2 \<Longrightarrow> ncols (np_T a) = nrows a"
  by (simp add: np_T_def ncols_mk2)

lemma residual_norms_total:
  assumes "shapes_agree s"
  shows "\<exists>R norms. residual_norms s = Inr (R, norms)"
  using assms
  by (simp add: shapes_agree_def residual_norms_def np_mul_def np_sub_def broadcast2_def
      newaxis_row_def bindE_Inr ndim_mk2 nrows_mk2 ncols_mk2 bdim_def)
    (simp add: ndim_def nrows_def ncols_def)

lemma solve_ritz_shape:
  "solve_ritz ctx gramA gramB = Inr (lam, eig) \<Longrightarrow> ncols eig = length lam"
  by (auto simp: solve_ritz_def bindE_eq_Inr Let_def take_idx_def split: prod.splits
      dest!: columns_take_shape)

lemma gram_matrices_rows:
  "gram_matrices ctx s (R, BR, AR) activeP = Inr g \<Longrightarrow> nrows AR = nrows BR"
  by (auto simp: gram_matrices_def bindE_eq_Inr dest!: np_dot_shape)

lemma ritz_vectors_shape:
  assumes "ritz_vectors ctx s c eig (R, BR, AR) activeP = Inr ((X', AX', BX'), ps)"
  shows "ndim AX' = 2 \<and> ndim BX' = 2
       \<and> nrows AX' = bdim (nrows (blockVectorAX s)) (nrows AR)
       \<and> nrows BX' = bdim (nrows (blockVectorBX s)) (nrows BR)
       \<and> ncols AX' = ncols eig \<and> ncols BX' = ncols eig"
  using assms
  by (cases activeP)
    (auto simp: ritz_vectors_def bindE_eq_Inr Let_def rows_slice_shape rows_from_shape bdim_same
      split: prod.splits dest!: np_dot_shape np_add_shape np_iadd_shape)


lemma ritz_step_shapes:
  assumes inv: "nrows (blockVectorAX s) = nrows (blockVectorBX s)"
      and step: "ritz_step ctx it s R c = Inr s'"
  shows "shapes_agree s'"
proof -
  from step obtain aR aP gA gB lam eig X' AX' BX' ps where
    g: "gram_matrices ctx s aR aP = Inr (gA, gB)"
    and sr: "solve_ritz ctx gA gB = Inr (lam, eig)"
    and rv: "ritz_vectors ctx s c eig aR aP = Inr ((X', AX', BX'), ps)"
    and s': "lambda s' = lam" "blockVectorAX s' = AX'" "blockVectorBX s' = BX'"
    by (auto simp: ritz_step_def bindE_eq_Inr split: prod.splits)
  obtain Ra BR AR where aR: "aR = (Ra, BR, AR)" by (cases aR) auto
  from gram_matrices_rows[OF g[unfolded aR]] have rows: "nrows AR = nrows BR" .
  from ritz_vectors_shape[OF rv[unfolded aR]] solve_ritz_shape[OF sr] rows inv s'
  show ?thesis by (simp add: shapes_agree_def)
qed

lemma lobpcg_iteration_shapes:
  assumes inv: "shapes_agree s"
      and it: "lobpcg_iteration ctx it s = Inr st"
  shows "shapes_agree (case st of Break s' \<Rightarrow> s' | Continue s' \<Rightarrow> s')"
proof (cases st)
  case (Break s')
  with it inv show ?thesis
    by (auto simp: lobpcg_iteration_def bindE_eq_Inr Let_def shapes_agree_def
        split: prod.splits if_splits)
next
  case (Continue s')
  with it obtain s2 R c where "ritz_step ctx it s2 R c = Inr s'"
    "blockVectorAX s2 = blockVectorAX s" "blockVectorBX s2 = blockVectorBX s"
    by (auto simp: lobpcg_iteration_def bindE_eq_Inr Let_def split: prod.splits if_splits)
  with inv Continue ritz_step_shapes[of s2 ctx it R c s'] show ?thesis
    by (simp add: shapes_agree_def)
qed

lemma lobpcg_for_shapes:
  "shapes_agree s \<Longrightarrow> lobpcg_for ctx its s = Inr s' \<Longrightarrow> shapes_agree s'"
proof (induction its arbitrary: s)
  case Nil
  then show ?case by simp
next
  case (Cons it its)
  show ?case
  proof (cases "lobpcg_iteration ctx it s")
    case (Inl e)
    with Cons.prems show ?thesis by simp
  next
    case (Inr st)
    from lobpcg_iteration_shapes[OF Cons.prems(1) Inr] Inr Cons.prems(2) Cons.IH
    show ?thesis by (cases st) auto
  qed
qed

lemma b_orthonormalize_shape:
  assumes "b_orthonormalize env (Some B) V None r = Inr (V', BV', Ri)"
  shows "ndim V' = 2 \<and> nrows BV' = nrows V'"
  using assms
  by (auto simp: b_orthonormalize_def bindE_eq_Inr ncols_np_T dest!: np_dot_shape)

lemma lobpcg_initial_shapes:
  assumes "lobpcg_initial env A B M X Y k lg tol = Inr (ctx, s0)"
  shows "shapes_agree s0"
proof -
  from assms obtain V X1 BX1 Ri AX1 w v eig AX0 BX0 where
    bo: "b_orthonormalize env (Some B) V None False = Inr (X1, BX1, Ri)"
    and g: "np_dot (np_T X1) AX1 = Inr (mk2 (nrows (np_T X1)) (ncols AX1) (\<lambda>i j. sum_list (map (\<lambda>l. at2 (np_T X1) i l * at2 AX1 l j) [0..<ncols (np_T X1)])))"
    and ct: "columns_take v (ritz_indices w k lg) = Inr eig"
    and a: "np_dot AX1 eig = Inr AX0" and b: "np_dot BX1 eig = Inr BX0"
    and s0: "blockVectorAX s0 = AX0" "blockVectorBX s0 = BX0"
       "lambda s0 = take_idx w (ritz_indices w k lg)"
    by (auto simp: lobpcg_initial_def bindE_eq_Inr Let_def np_dot_def split: prod.splits if_splits)
  from b_orthonormalize_shape[OF bo] have 1: "ndim X1 = 2" "nrows BX1 = nrows X1" by auto
  from np_dot_shape[OF g] 1 have 2: "nrows AX1 = nrows X1" by (simp add: ncols_np_T)
  from np_dot_shape[OF a] np_dot_shape[OF b] columns_take_shape[OF ct] 1 2 s0
  show ?thesis by (simp add: shapes_agree_def take_idx_def)
qed

text \<open>
  C8. A call that iterates (it passes the validation and is not small), whose setup
  and whose passes raise nothing, and whose loop runs out of passes without
  converging (\<open>failureFlag\<close> still set), returns: the eigenvalues and the block of the
  last pass, with the histories asked for. The computation after the loop cannot
  raise.
\<close>

theorem maxiter_not_an_error:
  assumes X: "ndim X = 2" "ncols X \<le> nrows X"
      and Y: "sizeY_of Y = Inr sizeY"
      and big: "\<not> int (nrows X) - int sizeY < 5 * int (ncols X)"
      and A: "makeOperator A (nrows X, nrows X) = Inr opA'"
      and B: "makeOperator B (nrows X, nrows X) = Inr opB'"
      and M: "makeOperator M (nrows X, nrows X) = Inr opM'"
      and init: "lobpcg_initial env opA' opB' opM' X Y (ncols X) lg
                   (residualTolerance_of tol (nrows X)) = Inr (ctx, s0)"
      and loop: "lobpcg_for ctx [0..<nat (min (int (nrows X)) maxiter)] s0 = Inr s"
      and notconv: "failureFlag s"
  shows "lobpcg env A X B M Y tol maxiter lg retL retR =
           Inr (if retL
                then (if retR
                      then Ret4 (lambda s) (blockVectorX s) (lambdaHistory s) (residualNormsHistory s)
                      else Ret3 (lambda s) (blockVectorX s) (lambdaHistory s))
                else (if retR
                      then Ret3 (lambda s) (blockVectorX s) (residualNormsHistory s)
                      else Ret2 (lambda s) (blockVectorX s)))"
proof -
  from lobpcg_for_shapes[OF lobpcg_initial_shapes[OF init] loop]
  obtain R norms where "residual_norms s = Inr (R, norms)"
    using residual_norms_total by blast
  then have "lobpcg_return s retL retR =
           Inr (if retL
                then (if retR
                      then Ret4 (lambda s) (blockVectorX s) (lambdaHistory s) (residualNormsHistory s)
                      else Ret3 (lambda s) (blockVectorX s) (lambdaHistory s))
                else (if retR
                      then Ret3 (lambda s) (blockVectorX s) (residualNormsHistory s)
                      else Ret2 (lambda s) (blockVectorX s)))"
    by (simp add: lobpcg_return_def bindE_Inr)
  with X Y big A B M init loop show ?thesis
    by (simp add: lobpcg_def bindE_Inr Let_def)
qed

theorem maxiter_not_an_error_witness:
  "failureFlag example_s1
   \<and> lobpcg diag_linalg (Some example_A5) example_X5 None None None (Some (1 / 2)) 1 False True
       True =
     Inr (Ret4 [0] (NDArray [5, 1] [4 / 5, - (3 / 5), 0, 0, 0]) [[3 / 4], [0]] [[1]])"
  using maxiter_not_an_error [of example_X5 None 0 "Some example_A5" example_A5 None
      example_I5 None example_I5 diag_linalg False "Some (1 / 2)" example_ctx example_s0 1
      example_s1 True True]
  by (simp add: example_X5_shape example_operators sizeY_of_def residualTolerance_of_def
      example_initial example_iteration0)
    (simp add: example_s1_def)

subsection \<open>C3: B-orthonormalisation\<close>

text \<open>\<open>np.dot\<close> on rank-2 arrays is the matrix product, with its usual algebra.\<close>

lemma concat_rows_length:
  "length (concat (map (\<lambda>i. map (f i) [0..<n]) [0..<m])) = m * n"
  by (induction m) simp_all

lemma concat_rows_nth:
  "i < m \<Longrightarrow> j < n \<Longrightarrow> concat (map (\<lambda>i. map (f i) [0..<n]) [0..<m]) ! (i * n + j) = f i j"
proof (induction m)
  case 0
  then show ?case by simp
next
  case (Suc m)
  show ?case
  proof (cases "i < m")
    case True
    then have "i * n + j < m * n"
      using Suc.prems(2)
      by (metis add_less_cancel_left less_le_trans mult_Suc mult_le_mono1 Suc_leI add.commute)
    with Suc True show ?thesis
      by (simp add: nth_append concat_rows_length)
  next
    case False
    with Suc.prems have "i = m" by simp
    with Suc.prems show ?thesis
      by (simp add: nth_append concat_rows_length)
  qed
qed

lemma at2_mk2: "i < m \<Longrightarrow> j < n \<Longrightarrow> at2 (mk2 m n f) i j = f i j"
  by (simp add: at2_def ncols_mk2) (simp add: mk2_def concat_rows_nth)

lemma mk2_cong:
  assumes "\<And>i j. i < m \<Longrightarrow> j < n \<Longrightarrow> f i j = g i j"
  shows "mk2 m n f = mk2 m n g"
proof -
  have "map (\<lambda>i. map (f i) [0..<n]) [0..<m] = map (\<lambda>i. map (g i) [0..<n]) [0..<m]"
    using assms by (intro map_cong) auto
  then show ?thesis by (simp only: mk2_def)
qed

lemma mk2_eq_iff_shape: "mk2 m n f = mk2 m' n' g \<Longrightarrow> m = m' \<and> n = n'"
  by (simp add: mk2_def)


lemma np_dot_mdot:
  "ndim a = 2 \<Longrightarrow> ndim b = 2 \<Longrightarrow> ncols a = nrows b \<Longrightarrow> np_dot a b = Inr (mdot a b)"
  by (simp add: np_dot_def mdot_def)

lemma np_dot_eq_Inr: "np_dot a b = Inr c \<longleftrightarrow> ndim a = 2 \<and> ndim b = 2 \<and> ncols a = nrows b \<and> c = mdot a b"
  by (auto simp: np_dot_def mdot_def)

lemma mdot_shape: "ndim (mdot a b) = 2" "nrows (mdot a b) = nrows a" "ncols (mdot a b) = ncols b"
  by (simp_all add: mdot_def ndim_mk2 nrows_mk2 ncols_mk2)



lemma at2_mdot: "i < nrows a \<Longrightarrow> j < ncols b \<Longrightarrow>
   at2 (mdot a b) i j = sum_list (map (\<lambda>l. at2 a i l * at2 b l j) [0..<ncols a])"
  by (simp add: mdot_def at2_mk2)


lemma mdot_assoc:
  assumes "ncols a = nrows b" "ncols b = nrows c"
  shows "mdot (mdot a b) c = mdot a (mdot b c)"
proof -
  have "mdot (mdot a b) c = mk2 (nrows a) (ncols c)
     (\<lambda>i q. sum_list (map (\<lambda>j. at2 (mdot a b) i j * at2 c j q) [0..<ncols b]))"
    by (simp add: mdot_def[of "mdot a b" c] mdot_shape)
  also have "\<dots> = mk2 (nrows a) (ncols c)
     (\<lambda>i q. sum_list (map (\<lambda>l. at2 a i l * at2 (mdot b c) l q) [0..<ncols a]))"
  proof (intro mk2_cong)
    fix i q assume i: "i < nrows a" and q: "q < ncols c"
    have "sum_list (map (\<lambda>j. at2 (mdot a b) i j * at2 c j q) [0..<ncols b])
        = (\<Sum>j = 0..<ncols b. (\<Sum>l = 0..<ncols a. at2 a i l * at2 b l j) * at2 c j q)"
      using i by (simp add: interv_sum_list_conv_sum_set_nat at2_mdot)
    also have "\<dots> = (\<Sum>j = 0..<ncols b. \<Sum>l = 0..<ncols a. at2 a i l * (at2 b l j * at2 c j q))"
      by (simp add: sum_distrib_right mult.assoc)
    also have "\<dots> = (\<Sum>l = 0..<ncols a. \<Sum>j = 0..<ncols b. at2 a i l * (at2 b l j * at2 c j q))"
      by (rule sum.swap)
    also have "\<dots> = (\<Sum>l = 0..<ncols a. at2 a i l * (\<Sum>j = 0..<ncols b. at2 b l j * at2 c j q))"
      by (simp add: sum_distrib_left)
    also have "\<dots> = sum_list (map (\<lambda>l. at2 a i l * at2 (mdot b c) l q) [0..<ncols a])"
      using q assms by (simp add: interv_sum_list_conv_sum_set_nat at2_mdot)
    finally show "sum_list (map (\<lambda>j. at2 (mdot a b) i j * at2 c j q) [0..<ncols b])
        = sum_list (map (\<lambda>l. at2 a i l * at2 (mdot b c) l q) [0..<ncols a])" .
  qed
  also have "\<dots> = mdot a (mdot b c)"
    by (simp add: mdot_def[of a "mdot b c"] mdot_shape)
  finally show ?thesis .
qed





lemma np_eye_shape: "ndim (np_eye k) = 2" "nrows (np_eye k) = k" "ncols (np_eye k) = k"
  by (simp_all add: np_eye_def ndim_mk2 nrows_mk2 ncols_mk2)

lemma apply_B_matrix_linear:
  assumes "apply_B (Some (MatrixLinearOperator b)) V = Inr BV"
      and "ndim V = 2" "ndim Rinv = 2" "ncols V = nrows Rinv"
  shows "apply_B (Some (MatrixLinearOperator b)) (mdot V Rinv) = Inr (mdot BV Rinv)"
proof -
  from assms(1) have b: "ndim b = 2" "ncols b = nrows V" "BV = mdot b V"
    by (simp_all add: apply_B_def MatrixLinearOperator_def np_dot_eq_Inr)
  have "np_dot b (mdot V Rinv) = Inr (mdot b (mdot V Rinv))"
    using b by (simp add: np_dot_mdot mdot_shape)
  also have "mdot b (mdot V Rinv) = mdot (mdot b V) Rinv"
    using b assms by (simp add: mdot_assoc)
  finally show ?thesis
    using b by (simp add: apply_B_def MatrixLinearOperator_def)
qed





subsection \<open>C5: the default tolerance\<close>

text \<open>A call that supplies no tolerance is the call with the tolerance
  \<open>sqrt(1e-15) * n\<close>, and that is the number each pass compares the residual norms
  with (\<open>lobpcg_initial_state\<close>, \<open>lobpcg_iteration_Break\<close>,
  \<open>lobpcg_iteration_Continue\<close>).\<close>

lemma lobpcg_default_tolerance_literal:
  "lobpcg env A X B M Y None maxiter largest' retLambdaHistory retResidualNormsHistory =
     lobpcg env A X B M Y (Some (sqrt (1 / 10 ^ 15) * real (nrows X))) maxiter largest'
       retLambdaHistory retResidualNormsHistory"
  by (simp add: lobpcg_def residualTolerance_of_def Let_def cong: if_cong)

text \<open>The run on the coupled problem.\<close>

lemma coupled_initial:
  "lobpcg_initial diag_linalg example_A5_coupled example_I5 example_I5 example_X5 None (Suc 0)
     False t
     = Inr (example_ctx\<lparr>opA := example_A5_coupled, residualTolerance := t\<rparr>, example_c0)"
  by (simp add: lobpcg_initial_def setup_constraints_def b_orthonormalize_def ritz_indices_def
      np_eval example_eval example_ctx_def example_s0_def example_c0_def
      example_A5_coupled_def)

lemma sqrt_tiny: "sqrt (1 / 100000000000000) = 1 / 10000000"
  by (rule real_sqrt_unique) (simp_all add: power2_eq_square)

lemma coupled_residual0:
  "residual_norms example_c0 = Inr (NDArray [5, Suc 0] [0, 1 / 10 ^ 7, 0, 0, 0], [1 / 10 ^ 7])"
  by (simp add: residual_norms_def example_s0_def example_c0_def np_eval sqrt_tiny)

lemma default_above_documented:
  "sqrt (1 / 2 ^ 52) * 5 < 1 / 10 ^ 7" "1 / 10 ^ 7 \<le> sqrt (1 / 10 ^ 15) * 5"
proof -
  have "sqrt (1 / 2 ^ 52) = 1 / 2 ^ 26"
    by (rule real_sqrt_unique) (simp_all add: power2_eq_square)
  then show "sqrt (1 / 2 ^ 52) * 5 < 1 / 10 ^ 7" by simp
  have "(1 / 10 ^ 7 / 5 :: real) = sqrt ((1 / 10 ^ 7 / 5)\<^sup>2)" by simp
  also have "\<dots> \<le> sqrt (1 / 10 ^ 15)"
    by (subst real_sqrt_le_iff) (simp add: power2_eq_square)
  finally show "1 / 10 ^ 7 \<le> sqrt (1 / 10 ^ 15) * 5" by simp
qed

lemma coupled_iteration0:
  "lobpcg_iteration (example_ctx\<lparr>opA := example_A5_coupled,
       residualTolerance := sqrt (1 / 10 ^ 15) * 5\<rparr>) 0 example_c0 = Inr (Break example_c1)"
proof -
  have m: "np_and (activeMask example_c0)
             (np_where_gt [1 / 10 ^ 7] (sqrt (1 / 10 ^ 15) * 5)) = Inr [False]"
    using default_above_documented(2)
    by (simp add: example_s0_def example_c0_def np_where_gt_def np_and_def bdim_def
        upt_conv_Cons)
  have p: "previousBlockSize example_c0 = Suc 0" "residualNormsHistory example_c0 = []"
    by (simp_all add: example_s0_def example_c0_def)
  show ?thesis
    using m
    by (simp add: lobpcg_iteration_def coupled_residual0 p bindE_Inr mask_sum_def
        example_c1_def np_eye_def mk2_def)
qed


lemma example_operators_coupled:
  "makeOperator (Some example_A5_coupled) (5, 5) = Inr example_A5_coupled"
  by (simp add: makeOperator_def example_A5_coupled_def MatrixLinearOperator_def nrows_def
      ncols_def)

lemma coupled_run:
  "lobpcg diag_linalg (Some example_A5_coupled) example_X5 None None None tol 20 False
     retLambdaHistory retResidualNormsHistory
   = bindE (lobpcg_for (example_ctx\<lparr>opA := example_A5_coupled,
                residualTolerance := residualTolerance_of tol 5\<rparr>) [0..<5] example_c0)
       (\<lambda>s. lobpcg_return s retLambdaHistory retResidualNormsHistory)"
  by (simp add: lobpcg_def sizeY_of_def example_X5_shape example_operators
      example_operators_coupled bindE_Inr coupled_initial)

lemma coupled_return:
  "lobpcg_return example_c1 True True =
     Inr (Ret4 [1] (NDArray [5, 1] [1, 0, 0, 0, 0]) [[1]] [[1 / 10 ^ 7]])"
  by (simp add: lobpcg_return_def residual_norms_def example_c1_def example_c0_def
      example_s0_def np_eval)

lemma coupled_not_Break:
  "lobpcg_iteration (example_ctx\<lparr>opA := example_A5_coupled,
       residualTolerance := sqrt (1 / 2 ^ 52) * 5\<rparr>) 0 example_c0 \<noteq> Inr (Break s)"
proof
  assume "lobpcg_iteration (example_ctx\<lparr>opA := example_A5_coupled,
       residualTolerance := sqrt (1 / 2 ^ 52) * 5\<rparr>) 0 example_c0 = Inr (Break s)"
  from lobpcg_iteration_Break[OF this]
  have "np_and (activeMask example_c0) (np_where_gt [1 / 10 ^ 7] (sqrt (1 / 2 ^ 52) * 5))
          = Inr (activeMask s)" "mask_sum (activeMask s) = 0"
    by (simp_all add: coupled_residual0)
  moreover have "np_and (activeMask example_c0)
      (np_where_gt [1 / 10 ^ 7] (sqrt (1 / 2 ^ 52) * 5)) = Inr [True]"
    using default_above_documented(1)
    by (simp add: example_s0_def example_c0_def np_where_gt_def np_and_def bdim_def
        upt_conv_Cons)
  ultimately show False by (simp add: mask_sum_def)
qed

lemma lobpcg_return_lambdaHistory:
  "lobpcg_return s True True = Inr (Ret4 w v lh rh) \<Longrightarrow> lambdaHistory s = lh"
  by (auto simp: lobpcg_return_def bindE_eq_Inr split: prod.splits)

text \<open>
  C5. The documentation of \<open>lobpcg\<close> gives the default tolerance as \<open>n * sqrt(eps)\<close>,
  \<open>eps\<close> the machine epsilon; the code takes \<open>sqrt(1e-15) * n\<close> (line 226). On the
  5 by 5 matrix \<open>example_A5_coupled\<close> with the block \<open>e\<^sub>1\<close> and no tolerance, the residual
  norm of the first pass is \<open>1e-7\<close>: above \<open>sqrt(2\<^sup>-\<^sup>5\<^sup>2) * 5\<close>, the documented default
  in double precision, and below \<open>sqrt(1e-15) * 5\<close>. The loop counts the column as
  converged and stops in its first pass, so the call returns the initial pair with one
  entry in each history; the same call given the documented default as its tolerance
  does not return that.
\<close>

theorem default_tolerance_departs_from_documented:
  "lobpcg diag_linalg (Some example_A5_coupled) example_X5 None None None None 20 False
     True True
     = Inr (Ret4 [1] (NDArray [5, 1] [1, 0, 0, 0, 0]) [[1]] [[1 / 10 ^ 7]])
   \<and> sqrt (1 / 2 ^ 52) * real (nrows example_X5) < 1 / 10 ^ 7
   \<and> lobpcg diag_linalg (Some example_A5_coupled) example_X5 None None None
        (Some (sqrt (1 / 2 ^ 52) * real (nrows example_X5))) 20 False True True
     \<noteq> Inr (Ret4 [1] (NDArray [5, 1] [1, 0, 0, 0, 0]) [[1]] [[1 / 10 ^ 7]])"
proof (intro conjI)
  show "lobpcg diag_linalg (Some example_A5_coupled) example_X5 None None None None 20 False
     True True
     = Inr (Ret4 [1] (NDArray [5, 1] [1, 0, 0, 0, 0]) [[1]] [[1 / 10 ^ 7]])"
  proof -
    have tol: "residualTolerance_of None 5 = sqrt (1 / 10 ^ 15) * 5"
      by (simp add: residualTolerance_of_def)
    have its: "[0..<5] = 0 # [1..<5]"
      by (simp add: upt_conv_Cons)
    show ?thesis
      by (simp only: coupled_run tol its lobpcg_for.simps coupled_iteration0 sum.case
          loop_step.case bindE_Inr coupled_return)
  qed
  show "sqrt (1 / 2 ^ 52) * real (nrows example_X5) < 1 / 10 ^ 7"
    using default_above_documented(1) by (simp add: example_X5_shape)
  show "lobpcg diag_linalg (Some example_A5_coupled) example_X5 None None None
        (Some (sqrt (1 / 2 ^ 52) * real (nrows example_X5))) 20 False True True
     \<noteq> Inr (Ret4 [1] (NDArray [5, 1] [1, 0, 0, 0, 0]) [[1]] [[1 / 10 ^ 7]])"
  proof
    let ?ctx = "example_ctx\<lparr>opA := example_A5_coupled,
                  residualTolerance := sqrt (1 / 2 ^ 52) * 5\<rparr>"
    assume "lobpcg diag_linalg (Some example_A5_coupled) example_X5 None None None
        (Some (sqrt (1 / 2 ^ 52) * real (nrows example_X5))) 20 False True True
      = Inr (Ret4 [1] (NDArray [5, 1] [1, 0, 0, 0, 0]) [[1]] [[1 / 10 ^ 7]])"
    then obtain s where loop: "lobpcg_for ?ctx (0 # [1..<5]) example_c0 = Inr s"
      and ret: "lobpcg_return s True True
                  = Inr (Ret4 [1] (NDArray [5, 1] [1, 0, 0, 0, 0]) [[1]] [[1 / 10 ^ 7]])"
      by (auto simp: coupled_run residualTolerance_of_def example_X5_shape bindE_eq_Inr
          upt_conv_Cons)
    from ret have lh: "lambdaHistory s = [[1]]" by (rule lobpcg_return_lambdaHistory)
    from loop obtain s1 where it: "lobpcg_iteration ?ctx 0 example_c0 = Inr (Continue s1)"
      and rest: "lobpcg_for ?ctx [1..<5] s1 = Inr s"
      using coupled_not_Break
      by (auto split: sum.splits loop_step.splits)
    from lobpcg_iteration_Continue[OF it]
    have "length (lambdaHistory s1) = 2"
      by (auto simp: example_c0_def example_s0_def)
    moreover from lobpcg_for_histories[OF rest]
    have "length (lambdaHistory s1) \<le> length (lambdaHistory s)" by auto
    ultimately show False using lh by simp
  qed
qed

end
